theory Spec2Isabelle
  imports Complex_Main "HOL-Library.Word" "HOL-Library.Monad_Syntax"
begin

unbundle bit_operations_syntax

section \<open>The Misol weather station component\<close>

text \<open>
  The repository holds two near-duplicate implementations of the component:
  \<^item> namespace \<open>misol_weather\<close> (the unnamed source file, whose class declaration is the header
    \<open>weather_station.h\<close>): its functions keep the source's names here;
  \<^item> namespace \<open>misol\<close> (\<open>components/misol_weather/weather_station.cpp\<close>): its functions and
    fields carry the suffix \<open>_misol\<close> where they differ from the first.
  Identifiers lose the trailing underscore of the C++ names (\<open>check_packet_\<close> is
  \<open>check_packet\<close>, \<open>first_data_received_\<close> is \<open>first_data_received\<close>).

  The build modelled has \<open>USE_SENSOR\<close> and \<open>USE_BINARY_SENSOR\<close> defined and
  \<open>USE_TEXT_SENSOR\<close> undefined, so the description look-up tables of the \<open>misol\<close> file are
  not part of it.

  A C++ \<open>float\<close> is NaN, an infinity or a number. A number that is only published is taken
  as the real it stands for: the rounding of the arithmetic that produces it is not part of
  the model. The UV intensity of namespace \<open>misol_weather\<close> and the arithmetic of
  \<open>detect_night\<close>, whose comparisons decide the night channel, carry the rounding of the
  binary64 and binary32 formats (to nearest, ties to even; the two zeros are not told apart,
  which no comparison does either).
\<close>

subsection \<open>Bytes, packet types, published values\<close>

type_synonym byte = "8 word"

datatype PacketType = WRONG_PACKET | BASIC_PACKET | BASIC_WITH_PRESSURE

datatype float = NAN | INFINITY | NEG_INFINITY | Val real

fun isnan :: "float \<Rightarrow> bool" where
  "isnan NAN = True"
| "isnan INFINITY = False"
| "isnan NEG_INFINITY = False"
| "isnan (Val x) = False"

subsection \<open>Single and double precision\<close>

text \<open>
  Rounding to the nearest integer, ties to the even one, and rounding of a real to a binary
  format with \<open>p\<close> bits of precision whose least exponent of a unit in the last place is
  \<open>emin\<close> (24 and -149 for binary32, 53 and -1074 for binary64), before any overflow.
\<close>

definition round_half_even :: "real \<Rightarrow> int" where
  "round_half_even q =
     (let f = \<lfloor>q\<rfloor>; d = q - of_int f
      in if d < 1 / 2 then f
         else if d > 1 / 2 then f + 1
         else if even f then f else f + 1)"

definition round_binary :: "nat \<Rightarrow> int \<Rightarrow> real \<Rightarrow> real" where
  "round_binary p emin x =
     (if x = 0 then 0
      else (let e = max (\<lfloor>log 2 \<bar>x\<bar>\<rfloor> - (int p - 1)) emin
            in of_int (round_half_even (x / 2 powi e)) * 2 powi e))"

text \<open>
  The \<open>double\<close> nearest to a real; it is used on quotients below \<open>2 ^ 13\<close> only, which do not
  overflow.
\<close>

definition double :: "real \<Rightarrow> real" where
  "double x = round_binary 53 (- 1074) x"

text \<open>The \<open>float\<close> nearest to a real: a result of magnitude \<open>2 ^ 128\<close> overflows.\<close>

definition float32 :: "real \<Rightarrow> float" where
  "float32 x =
     (let r = round_binary 24 (- 149) x
      in if r \<ge> 2 ^ 128 then INFINITY
         else if r \<le> - (2 ^ 128) then NEG_INFINITY
         else Val r)"

text \<open>\<open>x + y\<close>, \<open>x / 2.0f\<close> and \<open>x < y\<close> on \<open>float\<close>.\<close>

fun float_add :: "float \<Rightarrow> float \<Rightarrow> float" where
  "float_add NAN y = NAN"
| "float_add x NAN = NAN"
| "float_add INFINITY NEG_INFINITY = NAN"
| "float_add NEG_INFINITY INFINITY = NAN"
| "float_add INFINITY y = INFINITY"
| "float_add x INFINITY = INFINITY"
| "float_add NEG_INFINITY y = NEG_INFINITY"
| "float_add x NEG_INFINITY = NEG_INFINITY"
| "float_add (Val x) (Val y) = float32 (x + y)"

fun float_half :: "float \<Rightarrow> float" where
  "float_half NAN = NAN"
| "float_half INFINITY = INFINITY"
| "float_half NEG_INFINITY = NEG_INFINITY"
| "float_half (Val x) = float32 (x / 2)"

fun float_less :: "float \<Rightarrow> float \<Rightarrow> bool" where
  "float_less NAN y = False"
| "float_less x NAN = False"
| "float_less x NEG_INFINITY = False"
| "float_less INFINITY y = False"
| "float_less NEG_INFINITY y = True"
| "float_less x INFINITY = True"
| "float_less (Val x) (Val y) = (x < y)"

datatype state = Number float | Binary bool

datatype sensor =
    temperature_sensor
  | humidity_sensor
  | pressure_sensor
  | wind_speed_sensor
  | wind_gust_sensor
  | wind_direction_degrees_sensor
  | accumulated_precipitation_sensor
  | uv_intensity_sensor
  | uv_index_sensor
  | light_sensor
  | precipitation_intensity_sensor
  | battery_level_binary_sensor
  | night_binary_sensor

subsection \<open>Time\<close>

text \<open>
  A \<open>steady_clock::time_point\<close> is its count of nanoseconds; durations in milliseconds are
  counts of milliseconds. Comparing durations of two units is done in the finer one, as
  \<open>std::chrono\<close> does, and \<open>duration_cast\<close> truncates towards zero.
\<close>

type_synonym time_point = int

definition COMMUNICATION_TIMOUT :: int where
  "COMMUNICATION_TIMOUT = 2 * 60 * 1000"

definition PRECIPITATION_INTENSITY_INTERVAL :: int where
  "PRECIPITATION_INTENSITY_INTERVAL = 3 * 60 * 1000"

definition duration_cast_seconds :: "int \<Rightarrow> int" where
  "duration_cast_seconds d = sgn d * (\<bar>d\<bar> div 1000000000)"

subsection \<open>The frame validator\<close>

text \<open>
  \<open>data[i]\<close> with the buffer's length known: a read at or beyond \<open>len\<close> has no value.
\<close>

definition read_byte :: "byte list \<Rightarrow> nat \<Rightarrow> byte option" where
  "read_byte data i = (if i < length data then Some (data ! i) else None)"

text \<open>\<open>for (int i = i0; i < n; i++) checksum += data[i];\<close> on a \<open>uint8_t\<close> accumulator.\<close>

function checksum_loop :: "byte list \<Rightarrow> nat \<Rightarrow> nat \<Rightarrow> byte \<Rightarrow> byte option" where
  "checksum_loop data i n checksum =
     (if i < n
      then (case read_byte data i of
              None \<Rightarrow> None
            | Some b \<Rightarrow> checksum_loop data (Suc i) n (checksum + b))
      else Some checksum)"
  by pat_completeness auto
termination
  by (relation "measure (\<lambda>(data, i, n, checksum). n - i)") auto

declare checksum_loop.simps [simp del]

definition check_packet :: "byte list \<Rightarrow> PacketType option" where
  "check_packet data =
     (let len = length data in
      if len < 17 then Some WRONG_PACKET
      else do {
        sync \<leftarrow> read_byte data 0;
        if sync \<noteq> 0x24 then Some WRONG_PACKET
        else do {
          checksum \<leftarrow> checksum_loop data 0 16 0;
          expected \<leftarrow> read_byte data 16;
          if checksum \<noteq> expected then Some WRONG_PACKET
          else if len > 17 then
            (if len < 21 then Some BASIC_PACKET
             else do {
               checksum \<leftarrow> checksum_loop data 17 20 0;
               expected \<leftarrow> read_byte data 20;
               if checksum \<noteq> expected then Some BASIC_PACKET
               else Some BASIC_WITH_PRESSURE
             })
          else Some BASIC_PACKET
        }
      })"

text \<open>
  The classification as the specification words it: sums are taken modulo 256 over the
  unsigned values of the bytes.
\<close>

definition sum_mod_256 :: "byte list \<Rightarrow> nat" where
  "sum_mod_256 bs = sum_list (map unat bs) mod 256"

definition classify :: "byte list \<Rightarrow> PacketType" where
  "classify buffer =
     (if length buffer < 17
         \<or> buffer ! 0 \<noteq> 0x24
         \<or> sum_mod_256 (take 16 buffer) \<noteq> unat (buffer ! 16)
      then WRONG_PACKET
      else if 21 \<le> length buffer
              \<and> sum_mod_256 (take 3 (drop 17 buffer)) = unat (buffer ! 20)
      then BASIC_WITH_PRESSURE
      else BASIC_PACKET)"

subsection \<open>The raw fields of a packet\<close>

text \<open>
  The locals of \<open>process_packet_\<close>, with the width of their C++ type. \<open>process_packet_\<close> is
  called by \<open>loop\<close> only on a buffer that \<open>check_packet_\<close> accepted, so that indices 0 to 16
  (and 17 to 20 when \<open>has_pressure\<close>) are within the buffer.
\<close>

definition pressure :: "byte list \<Rightarrow> 32 word" where
  "pressure data =
     push_bit 16 (ucast (data ! 17)) + push_bit 8 (ucast (data ! 18)) + ucast (data ! 19)"

definition wind_direction :: "byte list \<Rightarrow> 16 word" where
  "wind_direction data = ucast (data ! 2) + push_bit 1 (ucast (data ! 3 AND 0x80))"

definition low_battery :: "byte list \<Rightarrow> bool" where
  "low_battery data = (data ! 3 AND 0x08 \<noteq> 0)"

definition tmp_val :: "byte list \<Rightarrow> 16 word" where
  "tmp_val data = ucast (data ! 4) + push_bit 8 (ucast (data ! 3 AND 0x07))"

definition humidity :: "byte list \<Rightarrow> byte" where
  "humidity data = data ! 5"

definition wind_speed_val :: "byte list \<Rightarrow> 16 word" where
  "wind_speed_val data = ucast (data ! 6) + push_bit 4 (ucast (data ! 3 AND 0x10))"

definition wind_gust :: "byte list \<Rightarrow> byte" where
  "wind_gust data = data ! 7"

definition accumulated_precipitation :: "byte list \<Rightarrow> 16 word" where
  "accumulated_precipitation data = ucast (data ! 9) + push_bit 8 (ucast (data ! 8))"

definition uv_intensity_val :: "byte list \<Rightarrow> 32 word" where
  "uv_intensity_val data = ucast (data ! 11) + push_bit 8 (ucast (data ! 10))"

definition light_val :: "byte list \<Rightarrow> 32 word" where
  "light_val data =
     ucast (data ! 14) + push_bit 8 (ucast (data ! 13)) + push_bit 16 (ucast (data ! 12))"

subsection \<open>The station's state\<close>

text \<open>
  \<open>sensors\<close> holds the sensors whose pointer is not \<open>nullptr\<close>; \<open>published\<close> is the sequence
  of \<open>publish_state\<close> calls made so far, oldest first.
\<close>

record WeatherStation_common =
  sensors :: "sensor set"
  published :: "(sensor \<times> state) list"
  first_data_received :: bool
  last_packet_time :: time_point

record WeatherStation = WeatherStation_common +
  precipitation_intensity_interval :: nat
  previous_precipitation_timestamp :: time_point
  previous_precipitation :: "16 word option"
  upper_night_threshold :: float
  lower_night_threshold :: float

text \<open>The function-local statics of \<open>detect_night\<close>: one copy for the whole process.\<close>

record detect_night_statics =
  previous_result :: bool
  first_run :: bool

definition detect_night_statics_init :: detect_night_statics where
  "detect_night_statics_init = \<lparr>previous_result = False, first_run = True\<rparr>"

text \<open>The member initialisers of the class declaration, for a given set of sensors.\<close>

definition WeatherStation_init :: "sensor set \<Rightarrow> WeatherStation" where
  "WeatherStation_init configured =
     \<lparr>sensors = configured, published = [], first_data_received = False,
      last_packet_time = 0,
      precipitation_intensity_interval = 5 * 60 * 1000,
      previous_precipitation_timestamp = 0,
      previous_precipitation = None,
      upper_night_threshold = float32 5.5,
      lower_night_threshold = float32 4.5\<rparr>"

definition set_precipitation_intensity_interval :: "nat \<Rightarrow> WeatherStation \<Rightarrow> WeatherStation" where
  "set_precipitation_intensity_interval minutes s =
     s\<lparr>precipitation_intensity_interval := minutes * 60 * 1000\<rparr>"

definition set_upper_night_threshold :: "float \<Rightarrow> WeatherStation \<Rightarrow> WeatherStation" where
  "set_upper_night_threshold x s = s\<lparr>upper_night_threshold := x\<rparr>"

definition set_lower_night_threshold :: "float \<Rightarrow> WeatherStation \<Rightarrow> WeatherStation" where
  "set_lower_night_threshold x s = s\<lparr>lower_night_threshold := x\<rparr>"

definition publish_state ::
  "sensor \<Rightarrow> state \<Rightarrow> 'a WeatherStation_common_scheme \<Rightarrow> 'a WeatherStation_common_scheme" where
  "publish_state sn v s = s\<lparr>published := published s @ [(sn, v)]\<rparr>"

text \<open>\<open>if (this->x_sensor_ != nullptr) this->x_sensor_->publish_state(v);\<close>\<close>

definition publish_if_set ::
  "sensor \<Rightarrow> state \<Rightarrow> 'a WeatherStation_common_scheme \<Rightarrow> 'a WeatherStation_common_scheme" where
  "publish_if_set sn v s = (if sn \<in> sensors s then publish_state sn v s else s)"

subsection \<open>The night detector\<close>

definition detect_night ::
  "float \<Rightarrow> float \<Rightarrow> float \<Rightarrow> detect_night_statics \<Rightarrow> bool \<times> detect_night_statics" where
  "detect_night uv_intensity lower_threshold upper_threshold st =
     (if first_run st
      then (let result = float_less uv_intensity
                           (float_half (float_add lower_threshold upper_threshold))
            in (result, st\<lparr>first_run := False, previous_result := result\<rparr>))
      else (let result = (if previous_result st then float_less uv_intensity upper_threshold
                          else float_less uv_intensity lower_threshold)
            in (result, st\<lparr>previous_result := result\<rparr>)))"

text \<open>
  Consecutive calls of \<open>detect_night\<close>, each with its UV intensity, lower threshold and upper
  threshold: the results, in order.
\<close>

fun detect_night_calls ::
  "(float \<times> float \<times> float) list \<Rightarrow> detect_night_statics \<Rightarrow> bool list" where
  "detect_night_calls [] st = []"
| "detect_night_calls ((uv, lower, upper) # calls) st =
     (case detect_night uv lower upper st of
        (result, st') \<Rightarrow> result # detect_night_calls calls st')"

subsection \<open>Namespace \<open>misol_weather\<close>: \<open>process_packet_\<close>\<close>

text \<open>
  One definition for each block of \<open>process_packet_\<close>, in the order of the source. The blocks
  for pressure, wind direction, temperature, wind speed, wind gust and light publish the
  same values in both namespaces and are shared.
\<close>

definition pressure_block ::
  "byte list \<Rightarrow> bool \<Rightarrow> 'a WeatherStation_common_scheme \<Rightarrow> 'a WeatherStation_common_scheme" where
  "pressure_block data has_pressure s =
     (if pressure_sensor \<in> sensors s
      then (if has_pressure
            then publish_state pressure_sensor (Number (Val (real (unat (pressure data)) / 100))) s
            else publish_state pressure_sensor (Number NAN) s)
      else s)"

definition wind_direction_block ::
  "byte list \<Rightarrow> 'a WeatherStation_common_scheme \<Rightarrow> 'a WeatherStation_common_scheme" where
  "wind_direction_block data s =
     (if wind_direction_degrees_sensor \<in> sensors s
      then (if wind_direction data \<noteq> 0x1FF
            then publish_state wind_direction_degrees_sensor
                   (Number (Val (real (unat (wind_direction data))))) s
            else publish_state wind_direction_degrees_sensor (Number NAN) s)
      else s)"

definition battery_block :: "byte list \<Rightarrow> WeatherStation \<Rightarrow> WeatherStation" where
  "battery_block data s =
     publish_if_set battery_level_binary_sensor (Binary (low_battery data)) s"

definition temperature :: "byte list \<Rightarrow> float" where
  "temperature data =
     (if tmp_val data \<noteq> 0x7FF then Val (real_of_int (uint (tmp_val data) - 400) / 10) else NAN)"

definition temperature_block ::
  "byte list \<Rightarrow> 'a WeatherStation_common_scheme \<Rightarrow> 'a WeatherStation_common_scheme" where
  "temperature_block data s = publish_if_set temperature_sensor (Number (temperature data)) s"

definition humidity_block :: "byte list \<Rightarrow> WeatherStation \<Rightarrow> WeatherStation" where
  "humidity_block data s =
     publish_if_set humidity_sensor (Number (Val (real (unat (humidity data))))) s"

definition wind_speed :: "byte list \<Rightarrow> float" where
  "wind_speed data =
     (if wind_speed_val data \<noteq> 0x1FF
      then Val (real (unat (wind_speed_val data)) / 8 * 1.12) else NAN)"

definition wind_speed_block ::
  "byte list \<Rightarrow> 'a WeatherStation_common_scheme \<Rightarrow> 'a WeatherStation_common_scheme" where
  "wind_speed_block data s = publish_if_set wind_speed_sensor (Number (wind_speed data)) s"

definition wind_gust_block ::
  "byte list \<Rightarrow> 'a WeatherStation_common_scheme \<Rightarrow> 'a WeatherStation_common_scheme" where
  "wind_gust_block data s =
     (if wind_gust_sensor \<in> sensors s
      then (if wind_gust data \<noteq> 0xFF
            then publish_state wind_gust_sensor
                   (Number (Val (real (unat (wind_gust data)) * 1.12))) s
            else publish_state wind_gust_sensor (Number NAN) s)
      else s)"

text \<open>
  The precipitation rate estimator: the triple is \<open>precipitation_intensity_updated\<close>,
  \<open>precipitation_intensity\<close> and the station with its baseline as the block leaves it.
  The two counters are promoted to \<open>int\<close> before the subtraction. The interval in seconds is
  compared with the configured one in milliseconds.
\<close>

definition precipitation_intensity_block ::
  "16 word \<Rightarrow> time_point \<Rightarrow> WeatherStation \<Rightarrow> bool \<times> float \<times> WeatherStation" where
  "precipitation_intensity_block accumulated now s =
     (case previous_precipitation s of
        Some previous \<Rightarrow>
          (let interval = duration_cast_seconds (now - previous_precipitation_timestamp s)
           in if interval * 1000 > int (precipitation_intensity_interval s)
              then (True,
                    Val (real_of_int (uint accumulated - uint previous) * 0.3
                         / (real_of_int interval / 3600)),
                    s\<lparr>previous_precipitation := Some accumulated,
                      previous_precipitation_timestamp := now\<rparr>)
              else (False, NAN, s))
      | None \<Rightarrow>
          (False, NAN,
           s\<lparr>previous_precipitation := Some accumulated,
             previous_precipitation_timestamp := now\<rparr>))"

definition precipitation_block :: "byte list \<Rightarrow> time_point \<Rightarrow> WeatherStation \<Rightarrow> WeatherStation" where
  "precipitation_block data now s =
     (case precipitation_intensity_block (accumulated_precipitation data) now s of
        (precipitation_intensity_updated, precipitation_intensity, s1) \<Rightarrow>
          (let s2 = publish_if_set accumulated_precipitation_sensor
                      (Number (Val (real (unat (accumulated_precipitation data)) * 0.3))) s1
           in if precipitation_intensity_sensor \<in> sensors s2 \<and> precipitation_intensity_updated
              then publish_state precipitation_intensity_sensor (Number precipitation_intensity) s2
              else s2))"

text \<open>
  \<open>float uv_intensity = (uv_intensity_val != 0xFFFF) ? uv_intensity_val / 10.0 : NAN;\<close> the
  quotient is a \<open>double\<close>, narrowed to \<open>float\<close> by the initialisation.
\<close>

definition uv_intensity :: "byte list \<Rightarrow> float" where
  "uv_intensity data =
     (if uv_intensity_val data \<noteq> 0xFFFF
      then float32 (double (real (unat (uv_intensity_val data)) / 10)) else NAN)"

text \<open>\<open>uint8_t uv_index = uv_intensity_val / 400;\<close> keeps the low eight bits of the quotient.\<close>

definition uv_index :: "byte list \<Rightarrow> byte" where
  "uv_index data = ucast (uv_intensity_val data div 400)"

definition uv_block :: "byte list \<Rightarrow> WeatherStation \<Rightarrow> WeatherStation" where
  "uv_block data s =
     (let s1 = publish_if_set uv_intensity_sensor (Number (uv_intensity data)) s
      in if uv_index_sensor \<in> sensors s1
         then (if \<not> isnan (uv_intensity data)
               then publish_state uv_index_sensor (Number (Val (real (unat (uv_index data))))) s1
               else publish_state uv_index_sensor (Number NAN) s1)
         else s1)"

definition night_block ::
  "byte list \<Rightarrow> WeatherStation \<times> detect_night_statics
     \<Rightarrow> WeatherStation \<times> detect_night_statics" where
  "night_block data sg =
     (case sg of (s, g) \<Rightarrow>
        (if night_binary_sensor \<in> sensors s \<and> \<not> isnan (uv_intensity data)
         then (case detect_night (uv_intensity data) (lower_night_threshold s)
                      (upper_night_threshold s) g of
                 (night, g') \<Rightarrow> (publish_state night_binary_sensor (Binary night) s, g'))
         else (s, g)))"

definition light :: "byte list \<Rightarrow> float" where
  "light data =
     (if light_val data \<noteq> 0xFFFFFF then Val (real (unat (light_val data)) / 10) else NAN)"

definition light_block ::
  "byte list \<Rightarrow> 'a WeatherStation_common_scheme \<Rightarrow> 'a WeatherStation_common_scheme" where
  "light_block data s = publish_if_set light_sensor (Number (light data)) s"

definition process_packet ::
  "byte list \<Rightarrow> bool \<Rightarrow> time_point \<Rightarrow> WeatherStation \<times> detect_night_statics
     \<Rightarrow> WeatherStation \<times> detect_night_statics" where
  "process_packet data has_pressure now sg =
     (case sg of (s, g) \<Rightarrow>
        (let s1 = pressure_block data has_pressure s;
             s2 = wind_direction_block data s1;
             s3 = battery_block data s2;
             s4 = temperature_block data s3;
             s5 = humidity_block data s4;
             s6 = wind_speed_block data s5;
             s7 = wind_gust_block data s6;
             s8 = precipitation_block data now s7;
             s9 = uv_block data s8
         in case night_block data (s9, g) of
              (s10, g') \<Rightarrow> (light_block data s10, g')))"

subsection \<open>Namespace \<open>misol_weather\<close>: \<open>reset_sub_entities_\<close> and \<open>loop\<close>\<close>

text \<open>The ten unconditional resets that both namespaces start with.\<close>

definition reset_sensors ::
  "'a WeatherStation_common_scheme \<Rightarrow> 'a WeatherStation_common_scheme" where
  "reset_sensors s =
     (let s1 = publish_if_set temperature_sensor (Number NAN) s;
          s2 = publish_if_set humidity_sensor (Number NAN) s1;
          s3 = publish_if_set pressure_sensor (Number NAN) s2;
          s4 = publish_if_set wind_speed_sensor (Number NAN) s3;
          s5 = publish_if_set wind_gust_sensor (Number NAN) s4;
          s6 = publish_if_set wind_direction_degrees_sensor (Number NAN) s5;
          s7 = publish_if_set accumulated_precipitation_sensor (Number NAN) s6;
          s8 = publish_if_set uv_intensity_sensor (Number NAN) s7;
          s9 = publish_if_set light_sensor (Number NAN) s8
      in publish_if_set uv_index_sensor (Number NAN) s9)"

definition reset_sub_entities :: "WeatherStation \<Rightarrow> WeatherStation" where
  "reset_sub_entities s =
     (let s10 = reset_sensors s
      in if precipitation_intensity_sensor \<in> sensors s10
         then (publish_state precipitation_intensity_sensor (Number NAN) s10)
                \<lparr>previous_precipitation := None\<rparr>
         else s10)"

text \<open>
  One call of \<open>loop\<close>: \<open>now\<close> is the clock reading of the tick and \<open>rx\<close> the bytes the UART
  holds (\<open>available()\<close> is their number, the buffer is filled with all of them). The result is
  \<open>None\<close> if \<open>check_packet_\<close> reads outside the buffer.
\<close>

definition communication_timeout :: "time_point \<Rightarrow> 'a WeatherStation_common_scheme \<Rightarrow> bool" where
  "communication_timeout now s \<longleftrightarrow>
     first_data_received s \<and> now - last_packet_time s > COMMUNICATION_TIMOUT * 1000000"

definition loop ::
  "time_point \<Rightarrow> byte list \<Rightarrow> WeatherStation \<times> detect_night_statics
     \<Rightarrow> (WeatherStation \<times> detect_night_statics) option" where
  "loop now rx sg =
     (case sg of (s, g) \<Rightarrow>
        (let s1 = (if communication_timeout now s
                   then reset_sub_entities (s\<lparr>first_data_received := False\<rparr>)
                   else s)
         in if length rx > 0
            then (let s2 = s1\<lparr>first_data_received := True, last_packet_time := now\<rparr>
                  in do {
                    packet_type \<leftarrow> check_packet rx;
                    if packet_type \<noteq> WRONG_PACKET
                    then Some (process_packet rx (packet_type = BASIC_WITH_PRESSURE) now (s2, g))
                    else Some (s2, g)
                  })
            else Some (s1, g)))"

text \<open>A session: the ticks in order, each with its clock reading and the bytes received.\<close>

fun run ::
  "(time_point \<times> byte list) list \<Rightarrow> WeatherStation \<times> detect_night_statics
     \<Rightarrow> (WeatherStation \<times> detect_night_statics) option" where
  "run [] sg = Some sg"
| "run ((now, rx) # ticks) sg =
     (case loop now rx sg of None \<Rightarrow> None | Some sg' \<Rightarrow> run ticks sg')"

subsection \<open>Namespace \<open>misol\<close>\<close>

text \<open>
  Modelled from the spec: the class declaration of this namespace is not among the sources.
  The fields are those its functions use, on top of the shared ones;
  \<open>previos_precipitation_\<close> holds the 16-bit counter (the specification's
  \<open>last_counter_value\<close> is a \<open>u16\<close>), with \<open>0xFFFF\<close> standing for "no baseline". No initial
  state is assumed.
\<close>

record WeatherStation_misol = WeatherStation_common +
  previos_precipitation_timestamp :: time_point
  previos_precipitation :: "16 word"

text \<open>
  \<open>battery_level_binary_sensor_\<close> is dereferenced without a null check: the result is \<open>None\<close>
  when the pointer is \<open>nullptr\<close>.
\<close>

definition battery_block_misol :: "byte list \<Rightarrow> WeatherStation_misol \<Rightarrow> WeatherStation_misol option" where
  "battery_block_misol data s =
     (if battery_level_binary_sensor \<in> sensors s
      then Some (publish_state battery_level_binary_sensor (Binary (low_battery data)) s)
      else None)"

definition humidity_block_misol :: "byte list \<Rightarrow> WeatherStation_misol \<Rightarrow> WeatherStation_misol" where
  "humidity_block_misol data s =
     (if humidity_sensor \<in> sensors s
      then (if humidity data \<noteq> 0xFF
            then publish_state humidity_sensor (Number (Val (real (unat (humidity data))))) s
            else publish_state humidity_sensor (Number NAN) s)
      else s)"

text \<open>
  The precipitation rate estimator of this namespace. \<open>steady_clock_now\<close> is the second clock
  reading, taken when a baseline is recorded. In the branch that computes a rate the baseline
  is assigned first and read back in the subtraction.
\<close>

definition precipitation_intensity_block_misol ::
  "16 word \<Rightarrow> time_point \<Rightarrow> time_point \<Rightarrow> WeatherStation_misol
     \<Rightarrow> bool \<times> float \<times> WeatherStation_misol" where
  "precipitation_intensity_block_misol accumulated now steady_clock_now s =
     (if accumulated \<noteq> 0xFFFF
      then (if previos_precipitation s \<noteq> 0xFFFF
            then (let interval = duration_cast_seconds (now - previos_precipitation_timestamp s)
                  in if interval * 1000 > PRECIPITATION_INTENSITY_INTERVAL
                     then (let s1 = s\<lparr>previos_precipitation := accumulated,
                                       previos_precipitation_timestamp := now\<rparr>
                           in (True,
                               Val (real_of_int (uint accumulated - uint (previos_precipitation s1))
                                    * 0.3 / (real_of_int interval / 3600)),
                               s1))
                     else (False, NAN, s))
            else (False, NAN,
                  s\<lparr>previos_precipitation := accumulated,
                    previos_precipitation_timestamp := steady_clock_now\<rparr>))
      else (True, NAN, s\<lparr>previos_precipitation := 0xFFFF\<rparr>))"

definition precipitation_block_misol ::
  "byte list \<Rightarrow> time_point \<Rightarrow> time_point \<Rightarrow> WeatherStation_misol \<Rightarrow> WeatherStation_misol" where
  "precipitation_block_misol data now steady_clock_now s =
     (case precipitation_intensity_block_misol (accumulated_precipitation data) now
             steady_clock_now s of
        (precipitation_intensity_updated, precipitation_intensity, s1) \<Rightarrow>
          (let s2 = publish_if_set accumulated_precipitation_sensor
                      (Number (Val (real (unat (accumulated_precipitation data)) * 0.3))) s1
           in if precipitation_intensity_sensor \<in> sensors s2 \<and> precipitation_intensity_updated
              then publish_state precipitation_intensity_sensor (Number precipitation_intensity) s2
              else s2))"

text \<open>
  The UV block of this namespace: the intensity is an \<open>unsigned int\<close>, divided by \<open>10.0f\<close> for
  the sensor and compared with nothing.
\<close>

definition uv_block_misol :: "byte list \<Rightarrow> WeatherStation_misol \<Rightarrow> WeatherStation_misol" where
  "uv_block_misol data s =
     (let s1 = (if uv_intensity_sensor \<in> sensors s
                then (if uv_intensity_val data \<noteq> 0xFFFF
                      then publish_state uv_intensity_sensor
                             (Number (Val (real (unat (uv_intensity_val data)) / 10))) s
                      else publish_state uv_intensity_sensor (Number NAN) s)
                else s)
      in if uv_index_sensor \<in> sensors s1
         then (if uv_intensity_val data \<noteq> 0xFFFF
               then publish_state uv_index_sensor (Number (Val (real (unat (uv_index data))))) s1
               else publish_state uv_index_sensor (Number NAN) s1)
         else s1)"

definition process_packet_misol ::
  "byte list \<Rightarrow> bool \<Rightarrow> time_point \<Rightarrow> time_point \<Rightarrow> WeatherStation_misol
     \<Rightarrow> WeatherStation_misol option" where
  "process_packet_misol data has_pressure now steady_clock_now s =
     (let s1 = pressure_block data has_pressure s;
          s2 = wind_direction_block data s1
      in do {
        s3 \<leftarrow> battery_block_misol data s2;
        let s4 = temperature_block data s3;
            s5 = humidity_block_misol data s4;
            s6 = wind_speed_block data s5;
            s7 = wind_gust_block data s6;
            s8 = precipitation_block_misol data now steady_clock_now s7;
            s9 = uv_block_misol data s8
        in Some (light_block data s9)
      })"

definition reset_sub_entities_misol :: "WeatherStation_misol \<Rightarrow> WeatherStation_misol" where
  "reset_sub_entities_misol s =
     (let s10 = reset_sensors s
      in if precipitation_intensity_sensor \<in> sensors s10
         then (publish_state precipitation_intensity_sensor (Number NAN) s10)
                \<lparr>previos_precipitation := 0xFFFF\<rparr>
         else s10)"

definition loop_misol ::
  "time_point \<Rightarrow> time_point \<Rightarrow> byte list \<Rightarrow> WeatherStation_misol
     \<Rightarrow> WeatherStation_misol option" where
  "loop_misol now steady_clock_now rx s =
     (let s1 = (if communication_timeout now s
                then reset_sub_entities_misol (s\<lparr>first_data_received := False\<rparr>)
                else s)
      in if length rx > 0
         then (let s2 = s1\<lparr>first_data_received := True, last_packet_time := now\<rparr>
               in do {
                 packet_type \<leftarrow> check_packet rx;
                 if packet_type \<noteq> WRONG_PACKET
                 then process_packet_misol rx (packet_type = BASIC_WITH_PRESSURE) now
                        steady_clock_now s2
                 else Some s2
               })
         else Some s1)"

text \<open>A session of this namespace: each tick also has the second clock reading.\<close>

fun run_misol ::
  "(time_point \<times> time_point \<times> byte list) list \<Rightarrow> WeatherStation_misol
     \<Rightarrow> WeatherStation_misol option" where
  "run_misol [] s = Some s"
| "run_misol ((now, steady_clock_now, rx) # ticks) s =
     (case loop_misol now steady_clock_now rx s of
        None \<Rightarrow> None
      | Some s' \<Rightarrow> run_misol ticks s')"

subsection \<open>Two stations in one process\<close>

text \<open>
  Two \<open>WeatherStation\<close> objects of namespace \<open>misol_weather\<close> in one process share the statics
  of \<open>detect_night\<close>. A schedule lists the ticks in the order the scheduler runs them; the
  flag says whether the tick is the first station's.
\<close>

fun run2 ::
  "(bool \<times> time_point \<times> byte list) list
     \<Rightarrow> WeatherStation \<times> WeatherStation \<times> detect_night_statics
     \<Rightarrow> (WeatherStation \<times> WeatherStation \<times> detect_night_statics) option" where
  "run2 [] c = Some c"
| "run2 ((first, now, rx) # schedule) (s1, s2, g) =
     (if first
      then (case loop now rx (s1, g) of
              None \<Rightarrow> None
            | Some (s1', g') \<Rightarrow> run2 schedule (s1', s2, g'))
      else (case loop now rx (s2, g) of
              None \<Rightarrow> None
            | Some (s2', g') \<Rightarrow> run2 schedule (s1, s2', g')))"

subsection \<open>Notions used in the statements\<close>

text \<open>The published sequence without the events of the night channel.\<close>

definition hide_night :: "(sensor \<times> state) list \<Rightarrow> (sensor \<times> state) list" where
  "hide_night events = filter (\<lambda>event. fst event \<noteq> night_binary_sensor) events"

text \<open>Two stations that differ at most in what they published on the night channel.\<close>

definition same_but_night :: "WeatherStation \<Rightarrow> WeatherStation \<Rightarrow> bool" where
  "same_but_night s t \<longleftrightarrow>
     sensors s = sensors t
     \<and> first_data_received s = first_data_received t
     \<and> last_packet_time s = last_packet_time t
     \<and> precipitation_intensity_interval s = precipitation_intensity_interval t
     \<and> previous_precipitation_timestamp s = previous_precipitation_timestamp t
     \<and> previous_precipitation s = previous_precipitation t
     \<and> upper_night_threshold s = upper_night_threshold t
     \<and> lower_night_threshold s = lower_night_threshold t
     \<and> hide_night (published s) = hide_night (published t)"

text \<open>A step that only publishes: every field but \<open>published\<close> is kept.\<close>

definition publishes_only ::
  "'a WeatherStation_common_scheme \<Rightarrow> 'a WeatherStation_common_scheme \<Rightarrow> bool" where
  "publishes_only s s' \<longleftrightarrow> (\<exists>events. s' = s\<lparr>published := published s @ events\<rparr>)"

text \<open>
  The session as the specification describes it (its sections 3, 4.4 and 4.5): whether a
  session is active, when the last buffer arrived, and whether the precipitation estimator
  has a baseline. A timeout drops the baseline; an accepted packet establishes one, unless
  its counter is the sentinel \<open>0xFFFF\<close>, which drops it.
\<close>

record spec_session =
  spec_first_data_received :: bool
  spec_last_packet_time :: time_point
  spec_has_baseline :: bool

definition spec_session_init :: spec_session where
  "spec_session_init =
     \<lparr>spec_first_data_received = False, spec_last_packet_time = 0, spec_has_baseline = False\<rparr>"

definition spec_tick :: "time_point \<Rightarrow> byte list \<Rightarrow> spec_session \<Rightarrow> spec_session" where
  "spec_tick now buffer a =
     (let a1 = (if spec_first_data_received a
                   \<and> now - spec_last_packet_time a > COMMUNICATION_TIMOUT * 1000000
                then a\<lparr>spec_first_data_received := False, spec_has_baseline := False\<rparr>
                else a)
      in if buffer \<noteq> []
         then (let a2 = a1\<lparr>spec_first_data_received := True, spec_last_packet_time := now\<rparr>
               in if classify buffer \<noteq> WRONG_PACKET
                  then a2\<lparr>spec_has_baseline := (accumulated_precipitation buffer \<noteq> 0xFFFF)\<rparr>
                  else a2)
         else a1)"

fun spec_run :: "(time_point \<times> byte list) list \<Rightarrow> spec_session \<Rightarrow> spec_session" where
  "spec_run [] a = a"
| "spec_run ((now, buffer) # ticks) a = spec_run ticks (spec_tick now buffer a)"

text \<open>
  A station agrees with the specification's session (the time of the last buffer counts
  only while a session is active).
\<close>

definition matches_spec_session :: "WeatherStation \<Rightarrow> spec_session \<Rightarrow> bool" where
  "matches_spec_session s a \<longleftrightarrow>
     first_data_received s = spec_first_data_received a
     \<and> (first_data_received s \<longrightarrow> last_packet_time s = spec_last_packet_time a)
     \<and> (previous_precipitation s \<noteq> None) = spec_has_baseline a"

text \<open>The same for a station of namespace \<open>misol\<close>, whose marker for "no baseline" is \<open>0xFFFF\<close>.\<close>

definition matches_spec_session_misol :: "WeatherStation_misol \<Rightarrow> spec_session \<Rightarrow> bool" where
  "matches_spec_session_misol s a \<longleftrightarrow>
     first_data_received s = spec_first_data_received a
     \<and> (first_data_received s \<longrightarrow> last_packet_time s = spec_last_packet_time a)
     \<and> (previos_precipitation s \<noteq> 0xFFFF) = spec_has_baseline a"

section \<open>The frame validator\<close>

lemma read_byte_in_range [simp]: "i < length data \<Longrightarrow> read_byte data i = Some (data ! i)"
  by (simp add: read_byte_def)

lemma read_byte_out_of_range [simp]: "length data \<le> i \<Longrightarrow> read_byte data i = None"
  by (simp add: read_byte_def)

lemma checksum_loop_in_range:
  "n \<le> length data \<Longrightarrow> i \<le> n \<Longrightarrow>
   checksum_loop data i n c = Some (c + sum_list (take (n - i) (drop i data)))"
proof (induction data i n c rule: checksum_loop.induct)
  case (1 data i n checksum)
  show ?case
  proof (cases "i < n")
    case True
    with 1 have il: "i < length data" by simp
    have d: "drop i data = data ! i # drop (Suc i) data"
      using il by (simp add: Cons_nth_drop_Suc)
    have n: "n - i = Suc (n - Suc i)" using True by simp
    have "checksum_loop data (Suc i) n (checksum + data ! i)
          = Some (checksum + data ! i + sum_list (take (n - Suc i) (drop (Suc i) data)))"
      using 1 True il by simp
    then show ?thesis
      using True il
      by (subst checksum_loop.simps) (simp add: d n add.assoc)
  next
    case False
    with 1 show ?thesis by (subst checksum_loop.simps) simp
  qed
qed

text \<open>The model does fail on a read beyond the buffer: the loop has no value there.\<close>

lemma checksum_loop_out_of_range:
  "i < n \<Longrightarrow> length data < n \<Longrightarrow> checksum_loop data i n c = None"
proof (induction data i n c rule: checksum_loop.induct)
  case (1 data i n checksum)
  show ?case
  proof (cases "i < length data")
    case True
    then have "Suc i < n" using 1 by simp
    then show ?thesis using 1 True
      by (subst checksum_loop.simps) simp
  next
    case False
    then show ?thesis using 1
      by (subst checksum_loop.simps) simp
  qed
qed

lemma unat_sum_list_byte: "unat (sum_list bs) = sum_mod_256 bs"
  for bs :: "byte list"
proof (induction bs)
  case Nil
  show ?case by (simp add: sum_mod_256_def)
next
  case (Cons b bs)
  have "unat (b + sum_list bs) = (unat b + unat (sum_list bs)) mod 256"
    by (simp add: unat_word_ariths)
  also have "\<dots> = (unat b + sum_list (map unat bs) mod 256) mod 256"
    using Cons by (simp add: sum_mod_256_def)
  also have "\<dots> = (unat b + sum_list (map unat bs)) mod 256"
    by (rule mod_add_right_eq)
  finally show ?case by (simp add: sum_mod_256_def)
qed

lemma sum_list_eq_byte_iff: "sum_list bs = b \<longleftrightarrow> sum_mod_256 bs = unat b"
  for bs :: "byte list"
  using unat_sum_list_byte [of bs] by (auto simp: word_unat_eq_iff)

lemma check_packet_classify_aux: "check_packet data = Some (classify data)"
proof (cases "length data < 17")
  case True
  then show ?thesis by (simp add: check_packet_def classify_def)
next
  case False
  then have p: "checksum_loop data 0 16 0 = Some (sum_list (take 16 data))"
    using checksum_loop_in_range [of 16 data 0 0] by simp
  have r: "read_byte data 0 = Some (data ! 0)" "read_byte data 16 = Some (data ! 16)"
    using False by (auto simp add: read_byte_def)
  show ?thesis
  proof (cases "length data < 21")
    case True
    with False show ?thesis
      by (simp add: check_packet_def classify_def Let_def sum_list_eq_byte_iff p r)
  next
    case F2: False
    then have s: "checksum_loop data 17 20 0 = Some (sum_list (take 3 (drop 17 data)))"
      using checksum_loop_in_range [of 20 data 17 0] by simp
    have r20: "read_byte data 20 = Some (data ! 20)"
      using F2 by (simp add: read_byte_def)
    from False F2 show ?thesis
      by (simp add: check_packet_def classify_def Let_def sum_list_eq_byte_iff p r s r20)
  qed
qed

lemma classify_accept_length:
  "classify data \<noteq> WRONG_PACKET \<Longrightarrow> 17 \<le> length data"
  "classify data = BASIC_WITH_PRESSURE \<Longrightarrow> 21 \<le> length data"
  by (auto simp: classify_def split: if_splits)

text \<open>
  Claim C5. For every byte buffer, \<open>check_packet_\<close> returns \<open>WRONG_PACKET\<close> exactly when the
  length is below 17, or byte 0 is not \<open>0x24\<close>, or the sum modulo 256 of bytes 0 to 15 differs
  from byte 16; otherwise it returns \<open>BASIC_WITH_PRESSURE\<close> exactly when the length is at least
  21 and the sum modulo 256 of bytes 17 to 19 equals byte 20, and \<open>BASIC_PACKET\<close> in every
  other case. That is: it returns what \<open>classify\<close> says, and never reads out of bounds.
\<close>

theorem check_packet_classify: "check_packet data = Some (classify data)"
  by (rule check_packet_classify_aux)

theorem check_packet_classify_witness:
  "check_packet [0x24, 0, 0, 0, 0, 0, 0, 0, 0, 0, 0, 0, 0, 0, 0, 0, 0x24, 1, 2, 3, 6]
     = Some BASIC_WITH_PRESSURE
   \<and> check_packet [0x24, 0, 0, 0, 0, 0, 0, 0, 0, 0, 0, 0, 0, 0, 0, 0, 0x24, 1, 2, 3, 7]
     = Some BASIC_PACKET
   \<and> check_packet [0x24, 0xFF, 0xFF, 0, 0, 0, 0, 0, 0, 0, 0, 0, 0, 0, 0, 0, 0x22, 1, 2]
     = Some BASIC_PACKET
   \<and> check_packet [0x24, 0, 0, 0, 0, 0, 0, 0, 0, 0, 0, 0, 0, 0, 0, 0, 0x25]
     = Some WRONG_PACKET
   \<and> check_packet [0x25, 0, 0, 0, 0, 0, 0, 0, 0, 0, 0, 0, 0, 0, 0, 0, 0x25]
     = Some WRONG_PACKET
   \<and> check_packet [0x24, 0, 0, 0, 0, 0, 0, 0, 0, 0, 0, 0, 0, 0, 0, 0]
     = Some WRONG_PACKET"
  using
    check_packet_classify [of "[0x24, 0, 0, 0, 0, 0, 0, 0, 0, 0, 0, 0, 0, 0, 0, 0, 0x24, 1, 2, 3, 6]"]
    check_packet_classify [of "[0x24, 0, 0, 0, 0, 0, 0, 0, 0, 0, 0, 0, 0, 0, 0, 0, 0x24, 1, 2, 3, 7]"]
    check_packet_classify [of "[0x24, 0xFF, 0xFF, 0, 0, 0, 0, 0, 0, 0, 0, 0, 0, 0, 0, 0, 0x22, 1, 2]"]
    check_packet_classify [of "[0x24, 0, 0, 0, 0, 0, 0, 0, 0, 0, 0, 0, 0, 0, 0, 0, 0x25]"]
    check_packet_classify [of "[0x25, 0, 0, 0, 0, 0, 0, 0, 0, 0, 0, 0, 0, 0, 0, 0, 0x25]"]
    check_packet_classify [of "[0x24, 0, 0, 0, 0, 0, 0, 0, 0, 0, 0, 0, 0, 0, 0, 0]"]
  by (simp add: classify_def sum_mod_256_def)

text \<open>
  Claim C10. For every byte buffer of any length, \<open>check_packet_\<close> reads only indices below
  the length: it reads indices 0 to 16 only once the length is known to be at least 17, and
  indices 17 to 20 only once it is known to be at least 21. A read at or beyond the length
  makes the result \<open>None\<close>, so the classification always having a value says that no read
  is out of bounds.
\<close>

theorem check_packet_in_bounds: "\<exists>packet_type. check_packet data = Some packet_type"
  using check_packet_classify_aux [of data] by blast

section \<open>Rounding\<close>

lemma round_half_even_of_int [simp]: "round_half_even (of_int n) = n"
  by (simp add: round_half_even_def)

lemma round_binary_0 [simp]: "round_binary p emin 0 = 0"
  by (simp add: round_binary_def)

lemma floor_log2_eq:
  assumes "2 powi k \<le> \<bar>x\<bar>" and "\<bar>x\<bar> < 2 powi (k + 1)"
  shows "\<lfloor>log 2 \<bar>x\<bar>\<rfloor> = k"
proof -
  have pos: "0 < \<bar>x\<bar>"
    using assms(1) zero_less_power_int [of "2 :: real" k] by linarith
  have "(2 :: real) powr real_of_int k = 2 powi k"
    by (simp add: powr_real_of_int')
  moreover have "(2 :: real) powr (real_of_int k + 1) = 2 powi (k + 1)"
    using powr_real_of_int' [of "2 :: real" "k + 1"] by simp
  ultimately show ?thesis
    using assms pos floor_log_eq_powr_iff [of "\<bar>x\<bar>" 2 k] by simp
qed

text \<open>Rounding a number whose binary exponent is known.\<close>

lemma round_binary_eval:
  assumes "2 powi k \<le> \<bar>x\<bar>" and "\<bar>x\<bar> < 2 powi (k + 1)"
    and "e = max (k - (int p - 1)) emin"
  shows "round_binary p emin x = of_int (round_half_even (x / 2 powi e)) * 2 powi e"
proof -
  have "0 < \<bar>x\<bar>"
    using assms(1) zero_less_power_int [of "2 :: real" k] by linarith
  then have "x \<noteq> 0" by simp
  then show ?thesis
    by (simp add: round_binary_def floor_log2_eq [OF assms(1,2)] assms(3) Let_def)
qed

text \<open>A number of the format rounds to itself.\<close>

lemma round_binary_exact:
  assumes x: "x = of_int m * 2 powi e" and m: "\<bar>m\<bar> < 2 ^ p" and e: "emin \<le> e"
  shows "round_binary p emin x = x"
proof (cases "m = 0")
  case True
  then show ?thesis using x by (simp add: round_binary_def)
next
  case False
  define k where "k = \<lfloor>log 2 \<bar>x\<bar>\<rfloor>"
  have ax: "\<bar>x\<bar> = of_int \<bar>m\<bar> * 2 powi e"
    using x by (simp add: abs_mult)
  have xpos: "0 < \<bar>x\<bar>"
    using False ax by simp
  have "2 powr real_of_int k \<le> \<bar>x\<bar>"
    using floor_log_eq_powr_iff [of "\<bar>x\<bar>" 2 k] xpos k_def by simp
  then have lo: "2 powi k \<le> \<bar>x\<bar>"
    by (simp add: powr_real_of_int')
  have "real_of_int \<bar>m\<bar> < 2 ^ p"
    using m by (metis of_int_less_iff of_int_numeral of_int_power)
  then have "\<bar>x\<bar> < 2 ^ p * 2 powi e"
    unfolding ax by (simp add: mult_strict_right_mono)
  also have "\<dots> = 2 powi (int p + e)"
    by (simp add: power_int_add)
  finally have "(2 :: real) powi k < 2 powi (int p + e)"
    using lo by linarith
  then have "k < int p + e"
    using power_int_increasing [of "int p + e" k "2 :: real"] by (cases "k < int p + e") auto
  define E where "E = max (k - (int p - 1)) emin"
  have Ee: "E \<le> e"
    using \<open>k < int p + e\<close> e by (simp add: E_def)
  have "x / 2 powi E = of_int m * 2 powi (e - E)"
    unfolding x by (simp add: power_int_diff)
  also have "\<dots> = of_int m * 2 ^ nat (e - E)"
    using Ee by (simp add: power_int_def)
  also have "\<dots> = of_int (m * 2 ^ nat (e - E))"
    by simp
  finally have q: "x / 2 powi E = of_int (m * 2 ^ nat (e - E))" .
  have "round_binary p emin x = of_int (round_half_even (x / 2 powi E)) * 2 powi E"
    using xpos by (simp add: round_binary_def k_def E_def Let_def)
  also have "\<dots> = (x / 2 powi E) * 2 powi E"
    unfolding q round_half_even_of_int ..
  also have "\<dots> = x"
    by simp
  finally show ?thesis .
qed

lemma float32_exact:
  assumes "x = of_int m * 2 powi e" and "\<bar>m\<bar> < 2 ^ 24" and "- 149 \<le> e" and "\<bar>x\<bar> < 2 ^ 128"
  shows "float32 x = Val x"
proof -
  have "- (2 ^ 128) < x" "x < 2 ^ 128"
    using assms(4) by (simp_all add: abs_less_iff)
  then show ?thesis
    by (simp add: float32_def round_binary_exact [OF assms(1-3)] not_le)
qed

text \<open>
  The values met below: the default thresholds and their mean, and the UV intensities of the
  raw readings 0, 10, 13 and 52.
\<close>

lemma float32_values:
  "float32 0 = Val 0"
  "float32 1 = Val 1"
  "float32 5 = Val 5"
  "float32 10 = Val 10"
  "float32 (9 / 2) = Val (9 / 2)"
  "float32 (11 / 2) = Val (11 / 2)"
  "float32 (5 / 2) = Val (5 / 2)"
  using float32_exact [of 0 0 0] float32_exact [of 1 1 0] float32_exact [of 5 5 0]
    float32_exact [of 10 10 0] float32_exact [of "9 / 2" 9 "- 1"]
    float32_exact [of "11 / 2" 11 "- 1"] float32_exact [of "5 / 2" 5 "- 1"]
  by simp_all

lemma double_values:
  "double 0 = 0"
  "double 1 = 1"
  "double (13 / 10) = 5854679515581645 / 2 ^ 52"
  "double (26 / 5) = 5854679515581645 / 2 ^ 50"
proof -
  show "double 0 = 0"
    by (simp add: double_def)
  show "double 1 = 1"
    using round_binary_exact [of 1 1 0 53 "- 1074"] by (simp add: double_def)
  show "double (13 / 10) = 5854679515581645 / 2 ^ 52"
    unfolding double_def
    by (subst round_binary_eval [where k = 0 and e = "- 52"])
       (simp_all add: round_half_even_def)
  show "double (26 / 5) = 5854679515581645 / 2 ^ 50"
    unfolding double_def
    by (subst round_binary_eval [where k = 2 and e = "- 50"])
       (simp_all add: round_half_even_def)
qed

lemma float32_of_double_values:
  "float32 (5854679515581645 / 2 ^ 52) = Val (10905190 / 2 ^ 23)"
  "float32 (5854679515581645 / 2 ^ 50) = Val (10905190 / 2 ^ 21)"
proof -
  show "float32 (5854679515581645 / 2 ^ 52) = Val (10905190 / 2 ^ 23)"
    unfolding float32_def
    by (subst round_binary_eval [where k = 0 and e = "- 23"])
       (simp_all add: round_half_even_def)
  show "float32 (5854679515581645 / 2 ^ 50) = Val (10905190 / 2 ^ 21)"
    unfolding float32_def
    by (subst round_binary_eval [where k = 2 and e = "- 21"])
       (simp_all add: round_half_even_def)
qed

lemma float32_double_values:
  "float32 (double 0) = Val 0"
  "float32 (double 1) = Val 1"
  "float32 (double (13 / 10)) = Val (10905190 / 2 ^ 23)"
  "float32 (double (26 / 5)) = Val (10905190 / 2 ^ 21)"
  unfolding double_values float32_of_double_values float32_values by (rule refl)+

lemma float32_tenth: "float32 (1 / 10) = Val (13421773 / 2 ^ 27)"
  unfolding float32_def
  by (subst round_binary_eval [where k = "- 4" and e = "- 27"])
     (simp_all add: round_half_even_def)

text \<open>
  The sum of the floats 0.1 and 2.5 rounds down, to twice the float 1.3.
\<close>

lemma float32_sum_tenth: "float32 (13421773 / 2 ^ 27 + 5 / 2) = Val (10905190 / 2 ^ 22)"
  unfolding float32_def
  by (subst round_binary_eval [where k = 1 and e = "- 22"])
     (simp_all add: round_half_even_def)

lemma float32_half_sum_tenth: "float32 (10905190 / 2 ^ 22 / 2) = Val (10905190 / 2 ^ 23)"
  using float32_exact [of "10905190 / 2 ^ 22 / 2" 10905190 "- 23"] by simp

section \<open>Steps that only publish\<close>

lemma publishes_only_refl [simp]: "publishes_only s s"
  unfolding publishes_only_def by (rule exI [of _ "[]"]) simp

lemma publishes_only_trans:
  "publishes_only s s' \<Longrightarrow> publishes_only s' s'' \<Longrightarrow> publishes_only s s''"
  unfolding publishes_only_def
proof (elim exE)
  fix es es'
  assume "s' = s\<lparr>published := published s @ es\<rparr>" "s'' = s'\<lparr>published := published s' @ es'\<rparr>"
  then have "s'' = s\<lparr>published := published s @ (es @ es')\<rparr>" by simp
  then show "\<exists>events. s'' = s\<lparr>published := published s @ events\<rparr>" ..
qed

lemma publishes_only_publish_state [simp]: "publishes_only s (publish_state sn v s)"
  unfolding publishes_only_def publish_state_def by blast

lemma publishes_only_publish_if_set [simp]: "publishes_only s (publish_if_set sn v s)"
  by (simp add: publish_if_set_def)

lemma publishes_only_then_publish_state:
  "publishes_only s s' \<Longrightarrow> publishes_only s (publish_state sn v s')"
  by (rule publishes_only_trans [OF _ publishes_only_publish_state])

lemma publishes_only_then_publish_if_set:
  "publishes_only s s' \<Longrightarrow> publishes_only s (publish_if_set sn v s')"
  by (rule publishes_only_trans [OF _ publishes_only_publish_if_set])

lemmas publishes_only_steps =
  publishes_only_then_publish_state publishes_only_then_publish_if_set publishes_only_refl

lemma publishes_only_pressure_block [simp]: "publishes_only s (pressure_block data hp s)"
  by (simp add: pressure_block_def)

lemma publishes_only_wind_direction_block [simp]: "publishes_only s (wind_direction_block data s)"
  by (simp add: wind_direction_block_def)

lemma publishes_only_battery_block [simp]: "publishes_only s (battery_block data s)"
  by (simp add: battery_block_def)

lemma publishes_only_temperature_block [simp]: "publishes_only s (temperature_block data s)"
  by (simp add: temperature_block_def)

lemma publishes_only_humidity_block [simp]: "publishes_only s (humidity_block data s)"
  by (simp add: humidity_block_def)

lemma publishes_only_wind_speed_block [simp]: "publishes_only s (wind_speed_block data s)"
  by (simp add: wind_speed_block_def)

lemma publishes_only_wind_gust_block [simp]: "publishes_only s (wind_gust_block data s)"
  by (simp add: wind_gust_block_def)

lemma publishes_only_uv_block [simp]: "publishes_only s (uv_block data s)"
  unfolding uv_block_def Let_def by (simp add: publishes_only_steps)

lemma publishes_only_light_block [simp]: "publishes_only s (light_block data s)"
  by (simp add: light_block_def)

lemma publishes_only_humidity_block_misol [simp]: "publishes_only s (humidity_block_misol data s)"
  by (simp add: humidity_block_misol_def)

lemma publishes_only_uv_block_misol [simp]: "publishes_only s (uv_block_misol data s)"
  unfolding uv_block_misol_def Let_def by (simp add: publishes_only_steps)

lemma publishes_only_night_block [simp]: "publishes_only s (fst (night_block data (s, g)))"
  by (simp add: night_block_def split: prod.split)

lemma publishes_only_common:
  assumes "publishes_only s s'"
  shows "sensors s' = sensors s" "first_data_received s' = first_data_received s"
    "last_packet_time s' = last_packet_time s"
  using assms by (auto simp: publishes_only_def)

lemma publishes_only_WeatherStation:
  fixes s :: WeatherStation
  assumes "publishes_only s s'"
  shows "precipitation_intensity_interval s' = precipitation_intensity_interval s"
    "previous_precipitation_timestamp s' = previous_precipitation_timestamp s"
    "previous_precipitation s' = previous_precipitation s"
    "upper_night_threshold s' = upper_night_threshold s"
    "lower_night_threshold s' = lower_night_threshold s"
  using assms by (auto simp: publishes_only_def)

lemma publishes_only_WeatherStation_misol:
  fixes s :: WeatherStation_misol
  assumes "publishes_only s s'"
  shows "previos_precipitation_timestamp s' = previos_precipitation_timestamp s"
    "previos_precipitation s' = previos_precipitation s"
  using assms by (auto simp: publishes_only_def)

lemma publishes_only_reset_sensors [simp]: "publishes_only s (reset_sensors s)"
  unfolding reset_sensors_def Let_def by (intro publishes_only_steps)


lemmas publishes_only_blocks =
  publishes_only_trans [OF _ publishes_only_pressure_block]
  publishes_only_trans [OF _ publishes_only_wind_direction_block]
  publishes_only_trans [OF _ publishes_only_battery_block]
  publishes_only_trans [OF _ publishes_only_temperature_block]
  publishes_only_trans [OF _ publishes_only_humidity_block]
  publishes_only_trans [OF _ publishes_only_humidity_block_misol]
  publishes_only_trans [OF _ publishes_only_wind_speed_block]
  publishes_only_trans [OF _ publishes_only_wind_gust_block]
  publishes_only_trans [OF _ publishes_only_uv_block]
  publishes_only_trans [OF _ publishes_only_uv_block_misol]
  publishes_only_trans [OF _ publishes_only_light_block]
  publishes_only_refl

lemma precipitation_intensity_block_shape:
  "\<exists>previous t. snd (snd (precipitation_intensity_block accumulated now s))
     = s\<lparr>previous_precipitation := Some previous, previous_precipitation_timestamp := t\<rparr>"
proof (cases "previous_precipitation s")
  case None
  then show ?thesis by (simp add: precipitation_intensity_block_def) blast
next
  case (Some previous)
  show ?thesis
  proof (cases "duration_cast_seconds (now - previous_precipitation_timestamp s) * 1000
                 > int (precipitation_intensity_interval s)")
    case True
    with Some show ?thesis
      by (simp add: precipitation_intensity_block_def Let_def) blast
  next
    case False
    have "s = s\<lparr>previous_precipitation := Some previous,
                 previous_precipitation_timestamp := previous_precipitation_timestamp s\<rparr>"
      using Some by simp
    moreover have "snd (snd (precipitation_intensity_block accumulated now s)) = s"
      using Some False by (simp add: precipitation_intensity_block_def Let_def)
    ultimately show ?thesis by metis
  qed
qed

lemma precipitation_block_shape:
  "\<exists>events previous t. precipitation_block data now s
     = s\<lparr>published := published s @ events,
         previous_precipitation := Some previous, previous_precipitation_timestamp := t\<rparr>"
proof -
  obtain u r s1 where b: "precipitation_intensity_block (accumulated_precipitation data) now s
      = (u, r, s1)"
    by (metis prod_cases3)
  with precipitation_intensity_block_shape [of "accumulated_precipitation data" now s]
  obtain previous t where s1: "s1 = s\<lparr>previous_precipitation := Some previous,
      previous_precipitation_timestamp := t\<rparr>"
    by auto
  have "publishes_only s1 (precipitation_block data now s)"
    unfolding precipitation_block_def b Let_def prod.case
    by (simp add: publishes_only_steps)
  then obtain events where "precipitation_block data now s
      = s1\<lparr>published := published s1 @ events\<rparr>"
    by (auto simp: publishes_only_def)
  with s1 have "precipitation_block data now s
      = s\<lparr>published := published s @ events,
          previous_precipitation := Some previous, previous_precipitation_timestamp := t\<rparr>"
    by simp
  then show ?thesis by blast
qed

lemma process_packet_shape:
  "\<exists>events previous t g'. process_packet data has_pressure now (s, g)
     = (s\<lparr>published := published s @ events,
          previous_precipitation := Some previous, previous_precipitation_timestamp := t\<rparr>, g')"
proof -
  define s7 where "s7 = wind_gust_block data (wind_speed_block data (humidity_block data
    (temperature_block data (battery_block data (wind_direction_block data
      (pressure_block data has_pressure s))))))"
  have "publishes_only s s7"
    unfolding s7_def by (intro publishes_only_blocks)
  then obtain e1 where s7: "s7 = s\<lparr>published := published s @ e1\<rparr>"
    by (auto simp: publishes_only_def)
  obtain e2 previous t where s8: "precipitation_block data now s7
      = s7\<lparr>published := published s7 @ e2,
           previous_precipitation := Some previous, previous_precipitation_timestamp := t\<rparr>"
    using precipitation_block_shape by blast
  define s9 where "s9 = uv_block data (precipitation_block data now s7)"
  obtain s10 g' where n: "night_block data (s9, g) = (s10, g')"
    by (cases "night_block data (s9, g)")
  have "publishes_only (precipitation_block data now s7) (light_block data s10)"
  proof -
    have "publishes_only (precipitation_block data now s7) s9"
      unfolding s9_def by simp
    moreover have "publishes_only s9 s10"
      using publishes_only_night_block [of s9 data g] n by simp
    ultimately show ?thesis
      by (blast intro: publishes_only_trans publishes_only_light_block)
  qed
  then obtain e3 where s11: "light_block data s10
      = (precipitation_block data now s7)\<lparr>published := published (precipitation_block data now s7) @ e3\<rparr>"
    by (auto simp: publishes_only_def)
  have "process_packet data has_pressure now (s, g) = (light_block data s10, g')"
    using n by (simp add: process_packet_def Let_def s7_def s9_def)
  also have "light_block data s10 = s7\<lparr>published := published s7 @ (e2 @ e3),
      previous_precipitation := Some previous, previous_precipitation_timestamp := t\<rparr>"
    unfolding s11 s8 by simp
  also have "\<dots> = s\<lparr>published := published s @ (e1 @ e2 @ e3),
      previous_precipitation := Some previous, previous_precipitation_timestamp := t\<rparr>"
    unfolding s7 by simp
  finally show ?thesis by blast
qed

lemma process_packet_fields:
  assumes "process_packet data has_pressure now (s, g) = (s', g')"
  shows "sensors s' = sensors s" "first_data_received s' = first_data_received s"
    "last_packet_time s' = last_packet_time s"
    "precipitation_intensity_interval s' = precipitation_intensity_interval s"
    "upper_night_threshold s' = upper_night_threshold s"
    "lower_night_threshold s' = lower_night_threshold s"
    "previous_precipitation s' \<noteq> None"
  using process_packet_shape [of data has_pressure now s g] assms by auto


lemma publish_if_set_eq:
  "publish_if_set sn v s = s\<lparr>published := published s @ (if sn \<in> sensors s then [(sn, v)] else [])\<rparr>"
  by (simp add: publish_if_set_def publish_state_def)

lemma map_filter_concat:
  "map f (filter P xs) = concat (map (\<lambda>x. if P x then [f x] else []) xs)"
  by (induction xs) simp_all

lemma publish_if_set_after:
  "publish_if_set sn v (s\<lparr>published := published s @ events\<rparr>)
     = s\<lparr>published := published s @ events @ (if sn \<in> sensors s then [(sn, v)] else [])\<rparr>"
  by (simp add: publish_if_set_def publish_state_def)

lemma reset_sensors_eq:
  "reset_sensors s = s\<lparr>published := published s @
     map (\<lambda>sn. (sn, Number NAN))
       (filter (\<lambda>sn. sn \<in> sensors s)
          [temperature_sensor, humidity_sensor, pressure_sensor, wind_speed_sensor,
           wind_gust_sensor, wind_direction_degrees_sensor, accumulated_precipitation_sensor,
           uv_intensity_sensor, light_sensor, uv_index_sensor])\<rparr>"
proof -
  have "reset_sensors s = reset_sensors (s\<lparr>published := published s @ []\<rparr>)"
    by simp
  also have "\<dots> = s\<lparr>published := published s @
     concat (map (\<lambda>sn. if sn \<in> sensors s then [(sn, Number NAN)] else [])
          [temperature_sensor, humidity_sensor, pressure_sensor, wind_speed_sensor,
           wind_gust_sensor, wind_direction_degrees_sensor, accumulated_precipitation_sensor,
           uv_intensity_sensor, light_sensor, uv_index_sensor])\<rparr>"
    by (simp only: reset_sensors_def Let_def publish_if_set_after)
       (simp split del: if_split)
  finally show ?thesis
    by (simp only: map_filter_concat)
qed

lemma reset_sub_entities_eq:
  "reset_sub_entities s = s\<lparr>published := published s @
     map (\<lambda>sn. (sn, Number NAN))
       (filter (\<lambda>sn. sn \<in> sensors s)
          [temperature_sensor, humidity_sensor, pressure_sensor, wind_speed_sensor,
           wind_gust_sensor, wind_direction_degrees_sensor, accumulated_precipitation_sensor,
           uv_intensity_sensor, light_sensor, uv_index_sensor, precipitation_intensity_sensor]),
     previous_precipitation :=
       (if precipitation_intensity_sensor \<in> sensors s then None else previous_precipitation s)\<rparr>"
proof -
  have sn: "sensors (reset_sensors s) = sensors s"
    by (rule publishes_only_common) simp
  show ?thesis
  proof (cases "precipitation_intensity_sensor \<in> sensors s")
    case True
    then have "reset_sub_entities s = (reset_sensors s)
        \<lparr>published := published (reset_sensors s) @ [(precipitation_intensity_sensor, Number NAN)],
         previous_precipitation := None\<rparr>"
      by (simp add: reset_sub_entities_def Let_def publish_state_def sn)
    then show ?thesis
      unfolding reset_sensors_eq map_filter_concat using True by (simp split del: if_split)
  next
    case False
    then have "reset_sub_entities s = reset_sensors s"
      by (simp add: reset_sub_entities_def Let_def sn)
    then show ?thesis
      unfolding reset_sensors_eq map_filter_concat using False by (simp split del: if_split)
  qed
qed

section \<open>The tick\<close>

lemma loop_no_bytes:
  "loop now [] (s, g) =
     Some (if communication_timeout now s
           then reset_sub_entities (s\<lparr>first_data_received := False\<rparr>) else s, g)"
  by (simp add: loop_def)

lemma loop_bytes:
  assumes "rx \<noteq> []"
  shows "loop now rx (s, g) =
     (let s1 = (if communication_timeout now s
                then reset_sub_entities (s\<lparr>first_data_received := False\<rparr>) else s);
          s2 = s1\<lparr>first_data_received := True, last_packet_time := now\<rparr>
      in Some (if classify rx \<noteq> WRONG_PACKET
               then process_packet rx (classify rx = BASIC_WITH_PRESSURE) now (s2, g)
               else (s2, g)))"
  using assms by (simp add: loop_def Let_def check_packet_classify_aux)

lemma loop_total: "\<exists>s' g'. loop now rx (s, g) = Some (s', g')"
proof (cases "rx = []")
  case True
  then show ?thesis by (simp add: loop_no_bytes)
next
  case False
  then show ?thesis
    by (cases "process_packet rx (classify rx = BASIC_WITH_PRESSURE) now
          ((if communication_timeout now s
            then reset_sub_entities (s\<lparr>first_data_received := False\<rparr>) else s)
            \<lparr>first_data_received := True, last_packet_time := now\<rparr>, g)")
       (simp add: loop_bytes Let_def)
qed

lemma loop_received:
  assumes "rx \<noteq> []" and "loop now rx (s, g) = Some (s', g')"
  shows "first_data_received s'" "last_packet_time s' = now"
proof -
  define s2 where "s2 = (if communication_timeout now s
      then reset_sub_entities (s\<lparr>first_data_received := False\<rparr>) else s)
      \<lparr>first_data_received := True, last_packet_time := now\<rparr>"
  have s2: "first_data_received s2" "last_packet_time s2 = now"
    by (simp_all add: s2_def)
  have "first_data_received s' \<and> last_packet_time s' = now"
  proof (cases "classify rx \<noteq> WRONG_PACKET")
    case True
    then have "process_packet rx (classify rx = BASIC_WITH_PRESSURE) now (s2, g) = (s', g')"
      using assms by (simp add: loop_bytes Let_def s2_def)
    from process_packet_fields(2,3) [OF this] s2
    show ?thesis by simp
  next
    case False
    then have "s' = s2" using assms by (simp add: loop_bytes Let_def s2_def)
    with s2 show ?thesis by simp
  qed
  then show "first_data_received s'" "last_packet_time s' = now" by simp_all
qed

section \<open>Namespace \<open>misol\<close>: shape of a tick\<close>

lemma precipitation_intensity_block_misol_shape:
  "\<exists>previous t. snd (snd (precipitation_intensity_block_misol accumulated now clk s))
     = s\<lparr>previos_precipitation := previous, previos_precipitation_timestamp := t\<rparr>"
proof -
  let ?r = "snd (snd (precipitation_intensity_block_misol accumulated now clk s))"
  have same: "s = s\<lparr>previos_precipitation := previos_precipitation s,
      previos_precipitation_timestamp := previos_precipitation_timestamp s\<rparr>"
    by simp
  have upd: "s\<lparr>previos_precipitation := 0xFFFF\<rparr> = s\<lparr>previos_precipitation := 0xFFFF,
      previos_precipitation_timestamp := previos_precipitation_timestamp s\<rparr>"
    by simp
  show ?thesis
  proof (cases "accumulated = 0xFFFF")
    case True
    then have "?r = s\<lparr>previos_precipitation := 0xFFFF\<rparr>"
      by (simp add: precipitation_intensity_block_misol_def)
    then show ?thesis using upd by metis
  next
    case valid: False
    show ?thesis
    proof (cases "previos_precipitation s = 0xFFFF")
      case True
      with valid have "?r = s\<lparr>previos_precipitation := accumulated,
          previos_precipitation_timestamp := clk\<rparr>"
        by (simp add: precipitation_intensity_block_misol_def)
      then show ?thesis by blast
    next
      case baseline: False
      show ?thesis
      proof (cases "duration_cast_seconds (now - previos_precipitation_timestamp s) * 1000
                      > PRECIPITATION_INTENSITY_INTERVAL")
        case True
        with valid baseline have "?r = s\<lparr>previos_precipitation := accumulated,
            previos_precipitation_timestamp := now\<rparr>"
          by (simp add: precipitation_intensity_block_misol_def Let_def)
        then show ?thesis by blast
      next
        case False
        with valid baseline have "?r = s"
          by (simp add: precipitation_intensity_block_misol_def Let_def)
        then show ?thesis using same by metis
      qed
    qed
  qed
qed

lemma precipitation_block_misol_shape:
  "\<exists>events previous t. precipitation_block_misol data now clk s
     = s\<lparr>published := published s @ events,
         previos_precipitation := previous, previos_precipitation_timestamp := t\<rparr>"
proof -
  obtain u r s1 where b: "precipitation_intensity_block_misol (accumulated_precipitation data)
      now clk s = (u, r, s1)"
    by (metis prod_cases3)
  with precipitation_intensity_block_misol_shape [of "accumulated_precipitation data" now clk s]
  obtain previous t where s1: "s1 = s\<lparr>previos_precipitation := previous,
      previos_precipitation_timestamp := t\<rparr>"
    by auto
  have "publishes_only s1 (precipitation_block_misol data now clk s)"
    unfolding precipitation_block_misol_def b Let_def prod.case
    by (simp add: publishes_only_steps)
  then obtain events where "precipitation_block_misol data now clk s
      = s1\<lparr>published := published s1 @ events\<rparr>"
    by (auto simp: publishes_only_def)
  with s1 have "precipitation_block_misol data now clk s
      = s\<lparr>published := published s @ events,
          previos_precipitation := previous, previos_precipitation_timestamp := t\<rparr>"
    by simp
  then show ?thesis by blast
qed

lemma process_packet_misol_shape:
  assumes "battery_level_binary_sensor \<in> sensors s"
  shows "\<exists>events previous t. process_packet_misol data has_pressure now clk s
     = Some (s\<lparr>published := published s @ events,
          previos_precipitation := previous, previos_precipitation_timestamp := t\<rparr>)"
proof -
  define s2 where "s2 = wind_direction_block data (pressure_block data has_pressure s)"
  have p2: "publishes_only s s2"
    unfolding s2_def by (intro publishes_only_blocks)
  then have "battery_level_binary_sensor \<in> sensors s2"
    using assms by (simp add: publishes_only_common)
  then have b: "battery_block_misol data s2
      = Some (publish_state battery_level_binary_sensor (Binary (low_battery data)) s2)"
    by (simp add: battery_block_misol_def)
  define s7 where "s7 = wind_gust_block data (wind_speed_block data (humidity_block_misol data
    (temperature_block data
      (publish_state battery_level_binary_sensor (Binary (low_battery data)) s2))))"
  have "publishes_only s2 s7"
    unfolding s7_def by (intro publishes_only_blocks publishes_only_steps)
  with p2 have "publishes_only s s7" by (rule publishes_only_trans)
  then obtain e1 where s7: "s7 = s\<lparr>published := published s @ e1\<rparr>"
    by (auto simp: publishes_only_def)
  define s8 where "s8 = precipitation_block_misol data now clk s7"
  obtain e2 previous t where s8: "s8
      = s7\<lparr>published := published s7 @ e2,
           previos_precipitation := previous, previos_precipitation_timestamp := t\<rparr>"
    unfolding s8_def using precipitation_block_misol_shape by blast
  have "publishes_only s8 (light_block data (uv_block_misol data s8))"
    by (intro publishes_only_blocks)
  then obtain e3 where s10: "light_block data (uv_block_misol data s8)
      = s8\<lparr>published := published s8 @ e3\<rparr>"
    by (auto simp: publishes_only_def)
  have "process_packet_misol data has_pressure now clk s
      = Some (light_block data (uv_block_misol data s8))"
    using b by (simp add: process_packet_misol_def Let_def s2_def s7_def s8_def)
  also have "light_block data (uv_block_misol data s8)
      = s7\<lparr>published := published s7 @ (e2 @ e3),
          previos_precipitation := previous, previos_precipitation_timestamp := t\<rparr>"
    unfolding s10 unfolding s8 by simp
  also have "\<dots> = s\<lparr>published := published s @ (e1 @ e2 @ e3),
      previos_precipitation := previous, previos_precipitation_timestamp := t\<rparr>"
    unfolding s7 by simp
  finally show ?thesis by blast
qed

lemma reset_sub_entities_misol_fields:
  "sensors (reset_sub_entities_misol s) = sensors s"
  "first_data_received (reset_sub_entities_misol s) = first_data_received s"
  "last_packet_time (reset_sub_entities_misol s) = last_packet_time s"
proof -
  have r: "publishes_only s (reset_sensors s)" by simp
  note f = publishes_only_common [OF r]
  show "sensors (reset_sub_entities_misol s) = sensors s"
    "first_data_received (reset_sub_entities_misol s) = first_data_received s"
    "last_packet_time (reset_sub_entities_misol s) = last_packet_time s"
    by (simp_all add: reset_sub_entities_misol_def Let_def publish_state_def f)
qed

lemma process_packet_misol_None:
  assumes "battery_level_binary_sensor \<notin> sensors s"
  shows "process_packet_misol data has_pressure now clk s = None"
proof -
  have "publishes_only s (wind_direction_block data (pressure_block data has_pressure s))"
    by (intro publishes_only_blocks)
  then have "battery_level_binary_sensor
      \<notin> sensors (wind_direction_block data (pressure_block data has_pressure s))"
    using assms by (simp add: publishes_only_common)
  then show ?thesis
    by (simp add: process_packet_misol_def Let_def battery_block_misol_def)
qed

lemma process_packet_misol_fields:
  assumes "process_packet_misol data has_pressure now clk s = Some s'"
  shows "sensors s' = sensors s" "first_data_received s' = first_data_received s"
    "last_packet_time s' = last_packet_time s"
proof -
  have "battery_level_binary_sensor \<in> sensors s"
    using assms process_packet_misol_None [of s data has_pressure now clk] by force
  from process_packet_misol_shape [OF this, of data has_pressure now clk] assms
  show "sensors s' = sensors s" "first_data_received s' = first_data_received s"
    "last_packet_time s' = last_packet_time s"
    by auto
qed

lemma loop_misol_no_bytes:
  "loop_misol now clk [] s =
     Some (if communication_timeout now s
           then reset_sub_entities_misol (s\<lparr>first_data_received := False\<rparr>) else s)"
  by (simp add: loop_misol_def)

lemma loop_misol_bytes:
  assumes "rx \<noteq> []"
  shows "loop_misol now clk rx s =
     (let s1 = (if communication_timeout now s
                then reset_sub_entities_misol (s\<lparr>first_data_received := False\<rparr>) else s);
          s2 = s1\<lparr>first_data_received := True, last_packet_time := now\<rparr>
      in if classify rx \<noteq> WRONG_PACKET
         then process_packet_misol rx (classify rx = BASIC_WITH_PRESSURE) now clk s2
         else Some s2)"
  using assms by (simp add: loop_misol_def Let_def check_packet_classify_aux)

lemma loop_misol_result:
  assumes "rx \<noteq> []" and "loop_misol now clk rx s = Some s'"
  shows "first_data_received s' \<and> last_packet_time s' = now"
proof -
  define s2 where "s2 = (if communication_timeout now s
      then reset_sub_entities_misol (s\<lparr>first_data_received := False\<rparr>) else s)
      \<lparr>first_data_received := True, last_packet_time := now\<rparr>"
  have s2: "first_data_received s2" "last_packet_time s2 = now"
    by (simp_all add: s2_def)
  show ?thesis
  proof (cases "classify rx \<noteq> WRONG_PACKET")
    case True
    then have "process_packet_misol rx (classify rx = BASIC_WITH_PRESSURE) now clk s2 = Some s'"
      using assms by (simp add: loop_misol_bytes Let_def s2_def)
    from process_packet_misol_fields(2,3) [OF this] s2 show ?thesis by simp
  next
    case False
    then have "s' = s2"
      using assms by (simp add: loop_misol_bytes Let_def s2_def)
    with s2 show ?thesis by simp
  qed
qed

lemma loop_misol_has_result:
  assumes "rx \<noteq> []"
  shows "(\<exists>s'. loop_misol now clk rx s = Some s')
     \<longleftrightarrow> classify rx = WRONG_PACKET \<or> battery_level_binary_sensor \<in> sensors s"
proof -
  define s2 where "s2 = (if communication_timeout now s
      then reset_sub_entities_misol (s\<lparr>first_data_received := False\<rparr>) else s)
      \<lparr>first_data_received := True, last_packet_time := now\<rparr>"
  have sn: "sensors s2 = sensors s"
    by (simp add: s2_def reset_sub_entities_misol_fields)
  show ?thesis
  proof (cases "classify rx = WRONG_PACKET")
    case True
    then show ?thesis
      using assms by (simp add: loop_misol_bytes Let_def)
  next
    case False
    then have l: "loop_misol now clk rx s
        = process_packet_misol rx (classify rx = BASIC_WITH_PRESSURE) now clk s2"
      using assms by (simp add: loop_misol_bytes Let_def s2_def)
    show ?thesis
    proof (cases "battery_level_binary_sensor \<in> sensors s")
      case True
      then have "battery_level_binary_sensor \<in> sensors s2" using sn by simp
      from process_packet_misol_shape [OF this, of rx "classify rx = BASIC_WITH_PRESSURE" now clk]
      show ?thesis using l True by auto
    next
      case nb: False
      then have "battery_level_binary_sensor \<notin> sensors s2" using sn by simp
      from process_packet_misol_None [OF this, of rx "classify rx = BASIC_WITH_PRESSURE" now clk]
      show ?thesis using l nb False by simp
    qed
  qed
qed

section \<open>Evaluation on concrete packets\<close>

text \<open>
  The definitions a concrete tick is evaluated with: first the tick down to the blocks of
  \<open>process_packet_\<close>, then the blocks on the packet's bytes.
\<close>

lemmas block_defs = pressure_block_def wind_direction_block_def battery_block_def temperature_block_def
  humidity_block_def wind_speed_block_def wind_gust_block_def precipitation_block_def
  precipitation_intensity_block_def uv_block_def night_block_def light_block_def
  publish_if_set_def publish_state_def detect_night_def duration_cast_seconds_def
  battery_block_misol_def humidity_block_misol_def precipitation_block_misol_def uv_block_misol_def
  precipitation_intensity_block_misol_def PRECIPITATION_INTENSITY_INTERVAL_def
  reset_sub_entities_def reset_sub_entities_misol_def reset_sensors_def
lemmas raw_defs = float32_values float32_double_values pressure_def wind_direction_def low_battery_def tmp_val_def humidity_def
  wind_speed_val_def wind_gust_def accumulated_precipitation_def uv_intensity_val_def light_val_def
  temperature_def wind_speed_def uv_intensity_def uv_index_def light_def
lemmas tick_defs = loop_def loop_misol_def communication_timeout_def COMMUNICATION_TIMOUT_def
  WeatherStation_init_def detect_night_statics_init_def
  set_precipitation_intensity_interval_def Let_def check_packet_classify_aux classify_def
  sum_mod_256_def process_packet_def process_packet_misol_def

section \<open>Reception of bytes and the communication timeout\<close>

text \<open>
  Claim C8. On every tick in which a non-empty byte buffer is received, \<open>loop\<close> sets
  \<open>first_data_received_\<close> to true and \<open>last_packet_time_\<close> to the tick's time, whether or
  not \<open>check_packet_\<close> accepts the buffer; so even a malformed frame postpones the
  communication timeout: no tick within the timeout after it times out. This holds in both
  namespaces. In namespace \<open>misol_weather\<close> every tick has a result. In namespace \<open>misol\<close>
  every result of such a tick has the two fields set and postpones the timeout, and the tick
  has a result exactly when the buffer is rejected or the battery sensor is set: on an
  accepted packet \<open>process_packet_\<close> dereferences the battery sensor unchecked, and a tick of
  a station without it has no defined result to speak of. A malformed frame is handled on
  every station of either namespace.
\<close>

theorem loop_received_bytes:
  "rx \<noteq> [] \<Longrightarrow>
   (\<exists>s' g'. loop now rx (s, g) = Some (s', g')
      \<and> first_data_received s' \<and> last_packet_time s' = now
      \<and> (\<forall>later. later - now \<le> COMMUNICATION_TIMOUT * 1000000
            \<longrightarrow> \<not> communication_timeout later s'))
   \<and> (\<forall>s'. loop_misol now steady_clock_now rx sm = Some s' \<longrightarrow>
        first_data_received s' \<and> last_packet_time s' = now
        \<and> (\<forall>later. later - now \<le> COMMUNICATION_TIMOUT * 1000000
              \<longrightarrow> \<not> communication_timeout later s'))
   \<and> ((\<exists>s'. loop_misol now steady_clock_now rx sm = Some s')
        \<longleftrightarrow> classify rx = WRONG_PACKET \<or> battery_level_binary_sensor \<in> sensors sm)"
proof -
  assume rx: "rx \<noteq> []"
  obtain s' g' where l: "loop now rx (s, g) = Some (s', g')"
    using loop_total by blast
  from loop_received [OF rx l] have "first_data_received s'" "last_packet_time s' = now" .
  then have a: "\<exists>s' g'. loop now rx (s, g) = Some (s', g')
      \<and> first_data_received s' \<and> last_packet_time s' = now
      \<and> (\<forall>later. later - now \<le> COMMUNICATION_TIMOUT * 1000000
            \<longrightarrow> \<not> communication_timeout later s')"
    using l by (auto simp: communication_timeout_def)
  have b: "\<forall>s'. loop_misol now steady_clock_now rx sm = Some s' \<longrightarrow>
        first_data_received s' \<and> last_packet_time s' = now
        \<and> (\<forall>later. later - now \<le> COMMUNICATION_TIMOUT * 1000000
              \<longrightarrow> \<not> communication_timeout later s')"
    using loop_misol_result [OF rx] by (auto simp: communication_timeout_def)
  note c = loop_misol_has_result [OF rx, of now steady_clock_now sm]
  from a b c show ?thesis
    by (intro conjI)
qed

text \<open>
  A one-byte buffer, which is not a packet, at time 5; the station of namespace \<open>misol\<close> has no
  sensor at all.
\<close>

theorem loop_received_bytes_witness:
  "map_option (first_data_received \<circ> fst)
        (loop 5 [0x00] (WeatherStation_init UNIV, detect_night_statics_init)) = Some True
   \<and> map_option (last_packet_time \<circ> fst)
        (loop 5 [0x00] (WeatherStation_init UNIV, detect_night_statics_init)) = Some 5
   \<and> classify [0x00] = WRONG_PACKET
   \<and> map_option first_data_received
        (loop_misol 5 6 [0x00]
           \<lparr>sensors = {}, published = [],
             first_data_received = False, last_packet_time = 0,
             previos_precipitation_timestamp = 0, previos_precipitation = 0xFFFF\<rparr>) = Some True
   \<and> map_option last_packet_time
        (loop_misol 5 6 [0x00]
           \<lparr>sensors = {}, published = [],
             first_data_received = False, last_packet_time = 0,
             previos_precipitation_timestamp = 0, previos_precipitation = 0xFFFF\<rparr>) = Some 5"
proof -
  have rx: "[0x00 :: byte] \<noteq> []" by simp
  have w: "classify [0x00] = WRONG_PACKET"
    by (simp add: classify_def)
  note t = loop_received_bytes [OF rx, of 5 "WeatherStation_init UNIV" detect_night_statics_init 6
      "\<lparr>sensors = {}, published = [],
             first_data_received = False, last_packet_time = 0,
             previos_precipitation_timestamp = 0, previos_precipitation = 0xFFFF\<rparr>"]
  from t w show ?thesis
    by auto
qed

text \<open>
  Claim C3, as amended. Whenever the session is active and \<open>now - last_packet_time_\<close> exceeds
  the communication timeout at a tick, the tick publishes NaN on every numeric sensor that is
  set (temperature, humidity, pressure, wind speed, wind gust, wind direction, accumulated
  precipitation, UV intensity, light, UV index, precipitation intensity, in this order),
  drops the precipitation baseline when the precipitation intensity sensor is set, and sets
  \<open>first_data_received_\<close> to false, even if no bytes arrived; with bytes, the tick then goes
  on as an ordinary tick from that state. The battery and night binary sensors get no value,
  and the statics of \<open>detect_night\<close> are left as they were.
\<close>

theorem communication_timeout_reset:
  "communication_timeout now s \<Longrightarrow>
   (let s_reset = s\<lparr>first_data_received := False,
      published := published s @
        map (\<lambda>sn. (sn, Number NAN))
          (filter (\<lambda>sn. sn \<in> sensors s)
             [temperature_sensor, humidity_sensor, pressure_sensor, wind_speed_sensor,
              wind_gust_sensor, wind_direction_degrees_sensor, accumulated_precipitation_sensor,
              uv_intensity_sensor, light_sensor, uv_index_sensor, precipitation_intensity_sensor]),
      previous_precipitation :=
        (if precipitation_intensity_sensor \<in> sensors s then None else previous_precipitation s)\<rparr>
    in loop now [] (s, g) = Some (s_reset, g)
       \<and> loop now rx (s, g) = loop now rx (s_reset, g))"
proof -
  assume t: "communication_timeout now s"
  define s_reset where "s_reset = s\<lparr>first_data_received := False,
      published := published s @
        map (\<lambda>sn. (sn, Number NAN))
          (filter (\<lambda>sn. sn \<in> sensors s)
             [temperature_sensor, humidity_sensor, pressure_sensor, wind_speed_sensor,
              wind_gust_sensor, wind_direction_degrees_sensor, accumulated_precipitation_sensor,
              uv_intensity_sensor, light_sensor, uv_index_sensor, precipitation_intensity_sensor]),
      previous_precipitation :=
        (if precipitation_intensity_sensor \<in> sensors s then None else previous_precipitation s)\<rparr>"
  have r: "reset_sub_entities (s\<lparr>first_data_received := False\<rparr>) = s_reset"
    unfolding reset_sub_entities_eq s_reset_def by simp
  have n: "\<not> communication_timeout now s_reset"
    by (simp add: communication_timeout_def s_reset_def)
  have "loop now [] (s, g) = Some (s_reset, g)"
    using t by (simp add: loop_no_bytes r)
  moreover have "loop now rx (s, g) = loop now rx (s_reset, g)"
    using t n by (simp add: loop_def r)
  ultimately show ?thesis
    unfolding Let_def s_reset_def by simp
qed

text \<open>A session last heard at time 0, polled without bytes 121 seconds later.\<close>

theorem communication_timeout_reset_witness:
  "communication_timeout 121000000000
     \<lparr>sensors = {temperature_sensor, precipitation_intensity_sensor, night_binary_sensor,
                 battery_level_binary_sensor},
      published = [], first_data_received = True, last_packet_time = 0,
      precipitation_intensity_interval = 300000, previous_precipitation_timestamp = 0,
      previous_precipitation = Some 100, upper_night_threshold = Val 5.5,
      lower_night_threshold = Val 4.5\<rparr>
   \<and> loop 121000000000 []
       (\<lparr>sensors = {temperature_sensor, precipitation_intensity_sensor, night_binary_sensor,
                 battery_level_binary_sensor},
         published = [], first_data_received = True, last_packet_time = 0,
         precipitation_intensity_interval = 300000, previous_precipitation_timestamp = 0,
         previous_precipitation = Some 100, upper_night_threshold = Val 5.5,
         lower_night_threshold = Val 4.5\<rparr>,
        \<lparr>previous_result = True, first_run = False\<rparr>)
     = Some (\<lparr>sensors = {temperature_sensor, precipitation_intensity_sensor, night_binary_sensor,
                 battery_level_binary_sensor},
         published = [(temperature_sensor, Number NAN),
                      (precipitation_intensity_sensor, Number NAN)],
         first_data_received = False, last_packet_time = 0,
         precipitation_intensity_interval = 300000, previous_precipitation_timestamp = 0,
         previous_precipitation = None, upper_night_threshold = Val 5.5,
         lower_night_threshold = Val 4.5\<rparr>,
        \<lparr>previous_result = True, first_run = False\<rparr>)"
proof -
  have t: "communication_timeout 121000000000
     \<lparr>sensors = {temperature_sensor, precipitation_intensity_sensor, night_binary_sensor,
                 battery_level_binary_sensor},
      published = [], first_data_received = True, last_packet_time = 0,
      precipitation_intensity_interval = 300000, previous_precipitation_timestamp = 0,
      previous_precipitation = Some 100, upper_night_threshold = Val 5.5,
      lower_night_threshold = Val 4.5\<rparr>"
    by (simp add: communication_timeout_def COMMUNICATION_TIMOUT_def)
  from communication_timeout_reset [OF t, of "\<lparr>previous_result = True, first_run = False\<rparr>" "[]"] t
  show ?thesis by (simp add: Let_def)
qed

text \<open>
  The claim as stated fails: a station with a temperature, a battery and a night sensor
  receives a packet at time 0 and nothing until a tick 121 seconds later. That tick times
  out; it publishes NaN for the temperature only, and \<open>detect_night\<close> still holds its result
  of the packet (\<open>first_run\<close> stays false, \<open>previous_result\<close> true).
\<close>

theorem timeout_keeps_night_statics:
  "run [(0, [0x24, 0, 0, 0, 0, 0, 0, 0, 0, 0, 0, 0, 0, 0, 0, 0, 0x24]), (121000000000, [])]
     (WeatherStation_init {temperature_sensor, night_binary_sensor, battery_level_binary_sensor},
      detect_night_statics_init)
   = Some (\<lparr>sensors = {temperature_sensor, night_binary_sensor, battery_level_binary_sensor},
            published = [(battery_level_binary_sensor, Binary False),
                         (temperature_sensor, Number (Val (- 40))),
                         (night_binary_sensor, Binary True),
                         (temperature_sensor, Number NAN)],
            first_data_received = False, last_packet_time = 0,
            precipitation_intensity_interval = 300000, previous_precipitation_timestamp = 0,
            previous_precipitation = Some 0, upper_night_threshold = Val 5.5,
            lower_night_threshold = Val 4.5\<rparr>,
           \<lparr>previous_result = True, first_run = False\<rparr>)"
proof -
  have t1: "loop 0 [0x24, 0, 0, 0, 0, 0, 0, 0, 0, 0, 0, 0, 0, 0, 0, 0, 0x24]
     (WeatherStation_init {temperature_sensor, night_binary_sensor, battery_level_binary_sensor},
      detect_night_statics_init)
   = Some (\<lparr>sensors = {temperature_sensor, night_binary_sensor, battery_level_binary_sensor},
            published = [(battery_level_binary_sensor, Binary False),
                         (temperature_sensor, Number (Val (- 40))),
                         (night_binary_sensor, Binary True)],
            first_data_received = True, last_packet_time = 0,
            precipitation_intensity_interval = 300000, previous_precipitation_timestamp = 0,
            previous_precipitation = Some 0, upper_night_threshold = Val 5.5,
            lower_night_threshold = Val 4.5\<rparr>,
           \<lparr>previous_result = True, first_run = False\<rparr>)"
    by (simp add: tick_defs) (simp add: block_defs raw_defs)
  have t2: "loop 121000000000 []
     (\<lparr>sensors = {temperature_sensor, night_binary_sensor, battery_level_binary_sensor},
            published = [(battery_level_binary_sensor, Binary False),
                         (temperature_sensor, Number (Val (- 40))),
                         (night_binary_sensor, Binary True)],
            first_data_received = True, last_packet_time = 0,
            precipitation_intensity_interval = 300000, previous_precipitation_timestamp = 0,
            previous_precipitation = Some 0, upper_night_threshold = Val 5.5,
            lower_night_threshold = Val 4.5\<rparr>,
           \<lparr>previous_result = True, first_run = False\<rparr>)
   = Some (\<lparr>sensors = {temperature_sensor, night_binary_sensor, battery_level_binary_sensor},
            published = [(battery_level_binary_sensor, Binary False),
                         (temperature_sensor, Number (Val (- 40))),
                         (night_binary_sensor, Binary True),
                         (temperature_sensor, Number NAN)],
            first_data_received = False, last_packet_time = 0,
            precipitation_intensity_interval = 300000, previous_precipitation_timestamp = 0,
            previous_precipitation = Some 0, upper_night_threshold = Val 5.5,
            lower_night_threshold = Val 4.5\<rparr>,
           \<lparr>previous_result = True, first_run = False\<rparr>)"
    by (simp add: tick_defs) (simp add: block_defs raw_defs)
  show ?thesis
    unfolding run.simps t1 t2 option.case by simp
qed

section \<open>The night detector\<close>

text \<open>
  \<open>detect_night_calls\<close> runs \<open>detect_night\<close> over a sequence of calls, starting from the statics
  as the program initialises them, and collects the results. Each call brings its own UV
  intensity and its own pair of thresholds, as the stations of a process may be configured
  differently.
\<close>

lemma detect_night_calls_length [simp]:
  "length (detect_night_calls calls st) = length calls"
  by (induction calls arbitrary: st) (auto split: prod.split)

lemma detect_night_not_first_run:
  "\<not> first_run (snd (detect_night uv lower upper st))"
  "previous_result (snd (detect_night uv lower upper st)) = fst (detect_night uv lower upper st)"
  by (simp_all add: detect_night_def Let_def)

lemma detect_night_first:
  "fst (detect_night uv lower upper detect_night_statics_init)
     = float_less uv (float_half (float_add lower upper))"
  by (simp add: detect_night_def detect_night_statics_init_def Let_def)

lemma detect_night_later:
  "\<not> first_run st \<Longrightarrow>
   fst (detect_night uv lower upper st)
     = (if previous_result st then float_less uv upper else float_less uv lower)"
  by (simp add: detect_night_def Let_def)

lemma detect_night_calls_later:
  assumes "\<not> first_run st"
  shows "i < length calls \<Longrightarrow> calls ! i = (uv, lower, upper) \<Longrightarrow>
     detect_night_calls calls st ! i =
       (if (case i of 0 \<Rightarrow> previous_result st
            | Suc j \<Rightarrow> detect_night_calls calls st ! j)
        then float_less uv upper else float_less uv lower)"
  using assms
proof (induction calls arbitrary: st i)
  case Nil
  then show ?case by simp
next
  case (Cons call calls)
  obtain uv0 lower0 upper0 where call: "call = (uv0, lower0, upper0)"
    by (cases call)
  obtain r st' where d: "detect_night uv0 lower0 upper0 st = (r, st')"
    by (cases "detect_night uv0 lower0 upper0 st")
  have st': "\<not> first_run st'" "previous_result st' = r"
    using detect_night_not_first_run [of uv0 lower0 upper0 st] d by simp_all
  show ?case
  proof (cases i)
    case 0
    then show ?thesis
      using Cons.prems call d detect_night_later [of st uv0 lower0 upper0] by simp
  next
    case (Suc j)
    then have j: "j < length calls" "calls ! j = (uv, lower, upper)"
      using Cons.prems by simp_all
    from Cons.IH [OF j st'(1)] st'(2) Suc call d show ?thesis
      by (cases j) simp_all
  qed
qed

text \<open>
  Claim C6, as amended. For every sequence of calls to \<open>detect_night\<close>, each with its own UV
  intensity and thresholds: the first call since the program started returns true (night)
  exactly when the UV intensity is below \<open>(lower_threshold + upper_threshold) / 2.0f\<close> as the code
  computes it in single precision, the sum rounded to a \<open>float\<close> and its half rounded again; every
  later call returns \<open>uv_intensity < upper_threshold\<close> when the result of the call before it was
  night and \<open>uv_intensity < lower_threshold\<close> when it was day. A call is the first one only once:
  neither a communication timeout nor a call on behalf of another station makes a later call
  the first again.
\<close>

theorem detect_night_hysteresis:
  "length (detect_night_calls calls detect_night_statics_init) = length calls
   \<and> (\<forall>uv lower upper. calls \<noteq> [] \<and> calls ! 0 = (uv, lower, upper) \<longrightarrow>
        detect_night_calls calls detect_night_statics_init ! 0
          = float_less uv (float_half (float_add lower upper)))
   \<and> (\<forall>i uv lower upper. Suc i < length calls \<and> calls ! Suc i = (uv, lower, upper) \<longrightarrow>
        detect_night_calls calls detect_night_statics_init ! Suc i
          = (if detect_night_calls calls detect_night_statics_init ! i
             then float_less uv upper else float_less uv lower))"
proof (cases calls)
  case Nil
  then show ?thesis by simp
next
  case (Cons call rest)
  obtain uv0 lower0 upper0 where call: "call = (uv0, lower0, upper0)"
    by (cases call)
  obtain r st' where d: "detect_night uv0 lower0 upper0 detect_night_statics_init = (r, st')"
    by (cases "detect_night uv0 lower0 upper0 detect_night_statics_init")
  have st': "\<not> first_run st'" "previous_result st' = r"
    using detect_night_not_first_run [of uv0 lower0 upper0 detect_night_statics_init] d
    by simp_all
  have r: "r = float_less uv0 (float_half (float_add lower0 upper0))"
    using d detect_night_first [of uv0 lower0 upper0] by simp
  have later: "detect_night_calls calls detect_night_statics_init ! Suc i
          = (if detect_night_calls calls detect_night_statics_init ! i
             then float_less uv upper else float_less uv lower)"
    if "Suc i < length calls" "calls ! Suc i = (uv, lower, upper)" for i uv lower upper
  proof -
    from that Cons have i: "i < length rest" "rest ! i = (uv, lower, upper)" by simp_all
    from detect_night_calls_later [OF st'(1) i] st'(2)
    show ?thesis using Cons call d by (cases i) simp_all
  qed
  show ?thesis
    using Cons call d r later by simp
qed

text \<open>
  Four calls from the start, the last one with thresholds of its own: 4 is below the midpoint
  5 (night); 5 is below the upper threshold 5.5 (night stays); 6 is not (day); 5 is not below
  the lower threshold 4 (day stays).
\<close>

theorem detect_night_hysteresis_witness:
  "detect_night_calls
     [(Val 4, Val 4.5, Val 5.5), (Val 5, Val 4.5, Val 5.5), (Val 6, Val 4.5, Val 5.5),
      (Val 5, Val 4, Val 6)] detect_night_statics_init
   = [True, True, False, False]"
proof -
  let ?calls = "[(Val 4, Val 4.5, Val 5.5), (Val 5, Val 4.5, Val 5.5), (Val 6, Val 4.5, Val 5.5),
      (Val 5, Val 4, Val 6)]"
  let ?r = "detect_night_calls ?calls detect_night_statics_init"
  note h = detect_night_hysteresis [of ?calls]
  from h have len: "length ?r = 4"
    by simp
  from h have "?r ! 0 = float_less (Val 4) (float_half (float_add (Val 4.5) (Val 5.5)))"
    by simp
  then have a0: "?r ! 0"
    by (simp add: float32_values)
  from h have step: "Suc i < 4 \<Longrightarrow> ?calls ! Suc i = (uv, lower, upper) \<Longrightarrow>
      ?r ! Suc i = (if ?r ! i then float_less uv upper else float_less uv lower)"
    for i uv lower upper
    by simp
  from step [of 0 "Val 5" "Val 4.5" "Val 5.5"] a0 have a1: "?r ! Suc 0"
    by simp
  from step [of "Suc 0" "Val 6" "Val 4.5" "Val 5.5"] a1 have a2: "\<not> ?r ! Suc (Suc 0)"
    by simp
  from step [of "Suc (Suc 0)" "Val 5" "Val 4" "Val 6"] a2 have a3: "\<not> ?r ! Suc (Suc (Suc 0))"
    by simp
  have "?r = [?r ! 0, ?r ! Suc 0, ?r ! Suc (Suc 0), ?r ! Suc (Suc (Suc 0))]"
    using len by (intro nth_equalityI) (auto simp: nth_Cons split: nat.split)
  with a0 a1 a2 a3 show ?thesis
    by simp
qed

text \<open>
  The claim as stated fails in two ways. With the thresholds \<open>0.1f\<close> and \<open>2.5f\<close> and the raw UV
  value 13, the first call of a fresh program publishes day although the UV intensity the
  detector receives, 10905190 / 2^23, is below the exact mean of the two thresholds: the
  single-precision midpoint is that very number, and the comparison is strict. And the first
  call of a session is not the first call of the detector: after a session that ended in
  night and a communication timeout, the raw UV value 52 (5.2, between the default thresholds
  4.5 and 5.5, above their midpoint 5) is published as night, where a fresh program publishes
  day.
\<close>

theorem night_not_by_exact_mean:
  "map_option (published \<circ> fst)
     (loop 0 [0x24, 0, 0, 0, 0, 0, 0, 0, 0, 0, 0, 13, 0, 0, 0, 0, 0x31]
        (set_lower_night_threshold (float32 0.1)
           (set_upper_night_threshold (float32 2.5)
              (WeatherStation_init {night_binary_sensor})),
         detect_night_statics_init))
     = Some [(night_binary_sensor, Binary False)]
   \<and> uv_intensity [0x24, 0, 0, 0, 0, 0, 0, 0, 0, 0, 0, 13, 0, 0, 0, 0, 0x31]
       = Val (10905190 / 2 ^ 23)
   \<and> float32 0.1 = Val (13421773 / 2 ^ 27)
   \<and> float32 2.5 = Val 2.5
   \<and> (10905190 / 2 ^ 23 :: real) < (13421773 / 2 ^ 27 + 2.5) / 2
   \<and> map_option (published \<circ> fst)
       (run [(0, [0x24, 0, 0, 0, 0, 0, 0, 0, 0, 0, 0, 10, 0, 0, 0, 0, 0x2E]),
             (121000000000, []),
             (200000000000, [0x24, 0, 0, 0, 0, 0, 0, 0, 0, 0, 0, 52, 0, 0, 0, 0, 0x58])]
          (WeatherStation_init {night_binary_sensor}, detect_night_statics_init))
       = Some [(night_binary_sensor, Binary True), (night_binary_sensor, Binary True)]
   \<and> map_option (published \<circ> fst)
       (run [(200000000000, [0x24, 0, 0, 0, 0, 0, 0, 0, 0, 0, 0, 52, 0, 0, 0, 0, 0x58])]
          (WeatherStation_init {night_binary_sensor}, detect_night_statics_init))
       = Some [(night_binary_sensor, Binary False)]"
proof -
  have a: "map_option (published \<circ> fst)
     (loop 0 [0x24, 0, 0, 0, 0, 0, 0, 0, 0, 0, 0, 13, 0, 0, 0, 0, 0x31]
        (set_lower_night_threshold (float32 0.1)
           (set_upper_night_threshold (float32 2.5)
              (WeatherStation_init {night_binary_sensor})),
         detect_night_statics_init))
     = Some [(night_binary_sensor, Binary False)]"
    by (simp add: tick_defs set_lower_night_threshold_def set_upper_night_threshold_def)
       (simp add: block_defs raw_defs float32_tenth [simplified] float32_sum_tenth [simplified]
          float32_half_sum_tenth [simplified])
  have b: "uv_intensity [0x24, 0, 0, 0, 0, 0, 0, 0, 0, 0, 0, 13, 0, 0, 0, 0, 0x31]
       = Val (10905190 / 2 ^ 23)"
    by (simp add: raw_defs)
  have c: "float32 0.1 = Val (13421773 / 2 ^ 27)" "float32 2.5 = Val 2.5"
    using float32_tenth float32_values by simp_all
  have d: "(10905190 / 2 ^ 23 :: real) < (13421773 / 2 ^ 27 + 2.5) / 2"
    by simp
  have t1: "loop 0 [0x24, 0, 0, 0, 0, 0, 0, 0, 0, 0, 0, 10, 0, 0, 0, 0, 0x2E]
      (WeatherStation_init {night_binary_sensor}, detect_night_statics_init)
    = Some (\<lparr>sensors = {night_binary_sensor}, published = [(night_binary_sensor, Binary True)],
            first_data_received = True, last_packet_time = 0,
            precipitation_intensity_interval = 300000, previous_precipitation_timestamp = 0,
            previous_precipitation = Some 0, upper_night_threshold = Val 5.5,
            lower_night_threshold = Val 4.5\<rparr>,
           \<lparr>previous_result = True, first_run = False\<rparr>)"
    by (simp add: tick_defs) (simp add: block_defs raw_defs)
  have t2: "loop 121000000000 []
      (\<lparr>sensors = {night_binary_sensor}, published = [(night_binary_sensor, Binary True)],
            first_data_received = True, last_packet_time = 0,
            precipitation_intensity_interval = 300000, previous_precipitation_timestamp = 0,
            previous_precipitation = Some 0, upper_night_threshold = Val 5.5,
            lower_night_threshold = Val 4.5\<rparr>,
           \<lparr>previous_result = True, first_run = False\<rparr>)
    = Some (\<lparr>sensors = {night_binary_sensor}, published = [(night_binary_sensor, Binary True)],
            first_data_received = False, last_packet_time = 0,
            precipitation_intensity_interval = 300000, previous_precipitation_timestamp = 0,
            previous_precipitation = Some 0, upper_night_threshold = Val 5.5,
            lower_night_threshold = Val 4.5\<rparr>,
           \<lparr>previous_result = True, first_run = False\<rparr>)"
    by (simp add: tick_defs) (simp add: block_defs raw_defs)
  have t3: "loop 200000000000 [0x24, 0, 0, 0, 0, 0, 0, 0, 0, 0, 0, 52, 0, 0, 0, 0, 0x58]
      (\<lparr>sensors = {night_binary_sensor}, published = [(night_binary_sensor, Binary True)],
            first_data_received = False, last_packet_time = 0,
            precipitation_intensity_interval = 300000, previous_precipitation_timestamp = 0,
            previous_precipitation = Some 0, upper_night_threshold = Val 5.5,
            lower_night_threshold = Val 4.5\<rparr>,
           \<lparr>previous_result = True, first_run = False\<rparr>)
    = Some (\<lparr>sensors = {night_binary_sensor},
            published = [(night_binary_sensor, Binary True), (night_binary_sensor, Binary True)],
            first_data_received = True, last_packet_time = 200000000000,
            precipitation_intensity_interval = 300000, previous_precipitation_timestamp = 0,
            previous_precipitation = Some 0, upper_night_threshold = Val 5.5,
            lower_night_threshold = Val 4.5\<rparr>,
           \<lparr>previous_result = True, first_run = False\<rparr>)"
    by (simp add: tick_defs) (simp add: block_defs raw_defs)
  have e: "map_option (published \<circ> fst)
       (run [(0, [0x24, 0, 0, 0, 0, 0, 0, 0, 0, 0, 0, 10, 0, 0, 0, 0, 0x2E]),
             (121000000000, []),
             (200000000000, [0x24, 0, 0, 0, 0, 0, 0, 0, 0, 0, 0, 52, 0, 0, 0, 0, 0x58])]
          (WeatherStation_init {night_binary_sensor}, detect_night_statics_init))
       = Some [(night_binary_sensor, Binary True), (night_binary_sensor, Binary True)]"
    unfolding run.simps t1 t2 t3 option.case by simp
  have f: "map_option (published \<circ> fst)
       (run [(200000000000, [0x24, 0, 0, 0, 0, 0, 0, 0, 0, 0, 0, 52, 0, 0, 0, 0, 0x58])]
          (WeatherStation_init {night_binary_sensor}, detect_night_statics_init))
       = Some [(night_binary_sensor, Binary False)]"
    by (simp add: tick_defs) (simp add: block_defs raw_defs)
  from a b c d e f show ?thesis
    by (intro conjI)
qed

section \<open>Sentinels\<close>

text \<open>
  The channels that publish NaN for their sentinel: wind direction, temperature, wind speed,
  wind gust, UV intensity and light in both namespaces, and humidity in namespace \<open>misol\<close>.
\<close>

lemma sentinel_is_nan:
  "wind_direction data = 0x1FF \<Longrightarrow> wind_direction_degrees_sensor \<in> sensors s \<Longrightarrow>
     wind_direction_block data s = publish_state wind_direction_degrees_sensor (Number NAN) s"
  "tmp_val data = 0x7FF \<Longrightarrow> temperature data = NAN"
  "wind_speed_val data = 0x1FF \<Longrightarrow> wind_speed data = NAN"
  "wind_gust data = 0xFF \<Longrightarrow> wind_gust_sensor \<in> sensors s \<Longrightarrow>
     wind_gust_block data s = publish_state wind_gust_sensor (Number NAN) s"
  "uv_intensity_val data = 0xFFFF \<Longrightarrow> uv_intensity data = NAN"
  "light_val data = 0xFFFFFF \<Longrightarrow> light data = NAN"
  "humidity data = 0xFF \<Longrightarrow> humidity_sensor \<in> sensors sm \<Longrightarrow>
     humidity_block_misol data sm = publish_state humidity_sensor (Number NAN) sm"
  by (simp_all add: wind_direction_block_def temperature_def wind_speed_def wind_gust_block_def
      uv_intensity_def light_def humidity_block_misol_def)

text \<open>
  Claim C1 says that a channel whose raw bits equal its sentinel publishes "no reading". The
  code does not do so for the accumulated precipitation (either namespace) nor for the
  humidity (namespace \<open>misol_weather\<close>): a valid 17-byte packet with humidity byte \<open>0xFF\<close> and
  precipitation bytes \<open>0xFF 0xFF\<close>, given to a fresh station with every sensor set, publishes
  19660.5 mm of precipitation in both namespaces and 255 % of humidity in \<open>misol_weather\<close>.
\<close>

theorem sentinel_published_as_number:
  "map_option (published \<circ> fst)
     (loop 0 [0x24, 0, 0, 0, 0, 0xFF, 0, 0, 0xFF, 0xFF, 0, 0, 0, 0, 0, 0, 0x21]
        (WeatherStation_init UNIV, detect_night_statics_init))
   = Some [(pressure_sensor, Number NAN),
           (wind_direction_degrees_sensor, Number (Val 0)),
           (battery_level_binary_sensor, Binary False),
           (temperature_sensor, Number (Val (- 40))),
           (humidity_sensor, Number (Val 255)),
           (wind_speed_sensor, Number (Val 0)),
           (wind_gust_sensor, Number (Val 0)),
           (accumulated_precipitation_sensor, Number (Val 19660.5)),
           (uv_intensity_sensor, Number (Val 0)),
           (uv_index_sensor, Number (Val 0)),
           (night_binary_sensor, Binary True),
           (light_sensor, Number (Val 0))]
   \<and> map_option published
     (loop_misol 0 0 [0x24, 0, 0, 0, 0, 0xFF, 0, 0, 0xFF, 0xFF, 0, 0, 0, 0, 0, 0, 0x21]
        \<lparr>sensors = UNIV, published = [], first_data_received = False, last_packet_time = 0,
         previos_precipitation_timestamp = 0, previos_precipitation = 0xFFFF\<rparr>)
   = Some [(pressure_sensor, Number NAN),
           (wind_direction_degrees_sensor, Number (Val 0)),
           (battery_level_binary_sensor, Binary False),
           (temperature_sensor, Number (Val (- 40))),
           (humidity_sensor, Number NAN),
           (wind_speed_sensor, Number (Val 0)),
           (wind_gust_sensor, Number (Val 0)),
           (accumulated_precipitation_sensor, Number (Val 19660.5)),
           (precipitation_intensity_sensor, Number NAN),
           (uv_intensity_sensor, Number (Val 0)),
           (uv_index_sensor, Number (Val 0)),
           (light_sensor, Number (Val 0))]"
  by (simp add: tick_defs) (simp add: block_defs raw_defs)

section \<open>The precipitation rate\<close>

text \<open>
  Namespace \<open>misol_weather\<close>: with a baseline and more whole seconds elapsed than the
  configured interval, the rate is the difference of the counters times 0.3, divided by the
  elapsed whole seconds in hours, and the baseline advances.
\<close>

lemma precipitation_intensity_block_rate:
  assumes "previous_precipitation s = Some previous"
    and "interval = duration_cast_seconds (now - previous_precipitation_timestamp s)"
    and "interval * 1000 > int (precipitation_intensity_interval s)"
  shows "precipitation_intensity_block accumulated now s
     = (True,
        Val (real_of_int (uint accumulated - uint previous) * 0.3 / (real_of_int interval / 3600)),
        s\<lparr>previous_precipitation := Some accumulated, previous_precipitation_timestamp := now\<rparr>)"
  using assms by (simp add: precipitation_intensity_block_def Let_def)

lemma precipitation_intensity_block_rate_example:
  "fst (snd (precipitation_intensity_block 110 61000000000
      \<lparr>sensors = {}, published = [], first_data_received = True, last_packet_time = 0,
       precipitation_intensity_interval = 60000, previous_precipitation_timestamp = 0,
       previous_precipitation = Some 100, upper_night_threshold = Val 5.5,
       lower_night_threshold = Val 4.5\<rparr>))
   = Val (10 * 0.3 / (61 / 3600))"
  by (simp add: precipitation_intensity_block_def duration_cast_seconds_def)

text \<open>Namespace \<open>misol\<close>: every rate that is computed is zero.\<close>

lemma precipitation_intensity_block_misol_zero:
  "fst (snd (precipitation_intensity_block_misol accumulated now clk s)) = NAN
   \<or> fst (snd (precipitation_intensity_block_misol accumulated now clk s)) = Val 0"
  by (simp add: precipitation_intensity_block_misol_def Let_def)

text \<open>
  Claim C2 says that a call with a baseline and more than the minimum interval elapsed
  returns (and publishes) the counter difference times 0.3 over the elapsed hours. Namespace
  \<open>misol\<close> stores the current counter as the baseline before it subtracts: a station with a
  battery and a precipitation intensity sensor that receives counter 100 at time 0, counter
  105 after 100 seconds and counter 110 after 181 seconds (the interval is 3 minutes there)
  publishes the rate 0, where the claim gives \<open>10 * 0.3 / (181 / 3600)\<close>.
\<close>

theorem rate_is_zero_misol:
  "map_option (\<lambda>s. (published s, previos_precipitation s, previos_precipitation_timestamp s))
     (run_misol
        [(0, 0, [0x24, 0, 0, 0, 0, 0, 0, 0, 0, 100, 0, 0, 0, 0, 0, 0, 0x88]),
         (100000000000, 100000000000,
            [0x24, 0, 0, 0, 0, 0, 0, 0, 0, 105, 0, 0, 0, 0, 0, 0, 0x8D]),
         (181000000000, 181000000000,
            [0x24, 0, 0, 0, 0, 0, 0, 0, 0, 110, 0, 0, 0, 0, 0, 0, 0x92])]
        \<lparr>sensors = {battery_level_binary_sensor, precipitation_intensity_sensor},
         published = [], first_data_received = False, last_packet_time = 0,
         previos_precipitation_timestamp = 0, previos_precipitation = 0xFFFF\<rparr>)
   = Some ([(battery_level_binary_sensor, Binary False),
            (battery_level_binary_sensor, Binary False),
            (battery_level_binary_sensor, Binary False),
            (precipitation_intensity_sensor, Number (Val 0))],
           110, 181000000000)"
proof -
  have t1: "loop_misol 0 0 [0x24, 0, 0, 0, 0, 0, 0, 0, 0, 100, 0, 0, 0, 0, 0, 0, 0x88]
        \<lparr>sensors = {battery_level_binary_sensor, precipitation_intensity_sensor},
         published = [], first_data_received = False, last_packet_time = 0,
         previos_precipitation_timestamp = 0, previos_precipitation = 0xFFFF\<rparr>
      = Some \<lparr>sensors = {battery_level_binary_sensor, precipitation_intensity_sensor},
         published = [(battery_level_binary_sensor, Binary False)],
         first_data_received = True, last_packet_time = 0,
         previos_precipitation_timestamp = 0, previos_precipitation = 100\<rparr>"
    by (simp add: tick_defs) (simp add: block_defs raw_defs)
  have t2: "loop_misol 100000000000 100000000000
        [0x24, 0, 0, 0, 0, 0, 0, 0, 0, 105, 0, 0, 0, 0, 0, 0, 0x8D]
        \<lparr>sensors = {battery_level_binary_sensor, precipitation_intensity_sensor},
         published = [(battery_level_binary_sensor, Binary False)],
         first_data_received = True, last_packet_time = 0,
         previos_precipitation_timestamp = 0, previos_precipitation = 100\<rparr>
      = Some \<lparr>sensors = {battery_level_binary_sensor, precipitation_intensity_sensor},
         published = [(battery_level_binary_sensor, Binary False),
                      (battery_level_binary_sensor, Binary False)],
         first_data_received = True, last_packet_time = 100000000000,
         previos_precipitation_timestamp = 0, previos_precipitation = 100\<rparr>"
    by (simp add: tick_defs) (simp add: block_defs raw_defs)
  have t3: "loop_misol 181000000000 181000000000
        [0x24, 0, 0, 0, 0, 0, 0, 0, 0, 110, 0, 0, 0, 0, 0, 0, 0x92]
        \<lparr>sensors = {battery_level_binary_sensor, precipitation_intensity_sensor},
         published = [(battery_level_binary_sensor, Binary False),
                      (battery_level_binary_sensor, Binary False)],
         first_data_received = True, last_packet_time = 100000000000,
         previos_precipitation_timestamp = 0, previos_precipitation = 100\<rparr>
      = Some \<lparr>sensors = {battery_level_binary_sensor, precipitation_intensity_sensor},
         published = [(battery_level_binary_sensor, Binary False),
                      (battery_level_binary_sensor, Binary False),
                      (battery_level_binary_sensor, Binary False),
                      (precipitation_intensity_sensor, Number (Val 0))],
         first_data_received = True, last_packet_time = 181000000000,
         previos_precipitation_timestamp = 181000000000, previos_precipitation = 110\<rparr>"
    by (simp add: tick_defs) (simp add: block_defs raw_defs)
  show ?thesis
    by (simp add: t1 t2 t3)
qed


text \<open>
  Namespace \<open>misol\<close>: a counter that is the sentinel drops the baseline and gives no rate, and
  no rate is computed from a baseline that is the sentinel.
\<close>

lemma precipitation_intensity_block_misol_sentinel:
  "precipitation_intensity_block_misol 0xFFFF now clk s
     = (True, NAN, s\<lparr>previos_precipitation := 0xFFFF\<rparr>)"
  "previos_precipitation s = 0xFFFF \<Longrightarrow>
     fst (snd (precipitation_intensity_block_misol accumulated now clk s)) = NAN"
  by (simp_all add: precipitation_intensity_block_misol_def)

text \<open>
  Claim C4 says that a counter equal to the sentinel \<open>0xFFFF\<close> resets the baseline and that no
  rate is computed from a sentinel. Namespace \<open>misol_weather\<close> has no such check: a station
  with a precipitation intensity sensor and an interval of one minute that receives counter
  100 at time 0 and counter \<open>0xFFFF\<close> after 61 seconds publishes the rate
  \<open>(65535 - 100) * 0.3 / (61 / 3600)\<close> and keeps \<open>0xFFFF\<close> as its baseline.
\<close>

theorem rate_from_sentinel:
  "map_option (\<lambda>sg. (published (fst sg), previous_precipitation (fst sg)))
     (run
        [(0, [0x24, 0, 0, 0, 0, 0, 0, 0, 0, 100, 0, 0, 0, 0, 0, 0, 0x88]),
         (61000000000, [0x24, 0, 0, 0, 0, 0, 0, 0, 0xFF, 0xFF, 0, 0, 0, 0, 0, 0, 0x22])]
        (set_precipitation_intensity_interval 1
           (WeatherStation_init {precipitation_intensity_sensor}),
         detect_night_statics_init))
   = Some ([(precipitation_intensity_sensor, Number (Val (65435 * 0.3 / (61 / 3600))))],
           Some 0xFFFF)"
proof -
  have t1: "loop 0 [0x24, 0, 0, 0, 0, 0, 0, 0, 0, 100, 0, 0, 0, 0, 0, 0, 0x88]
        (set_precipitation_intensity_interval 1
           (WeatherStation_init {precipitation_intensity_sensor}),
         detect_night_statics_init)
      = Some (\<lparr>sensors = {precipitation_intensity_sensor}, published = [],
           first_data_received = True, last_packet_time = 0,
           precipitation_intensity_interval = 60000, previous_precipitation_timestamp = 0,
           previous_precipitation = Some 100, upper_night_threshold = Val 5.5,
           lower_night_threshold = Val 4.5\<rparr>, detect_night_statics_init)"
    by (simp add: tick_defs) (simp add: block_defs raw_defs)
  have t2: "loop 61000000000 [0x24, 0, 0, 0, 0, 0, 0, 0, 0xFF, 0xFF, 0, 0, 0, 0, 0, 0, 0x22]
        (\<lparr>sensors = {precipitation_intensity_sensor}, published = [],
           first_data_received = True, last_packet_time = 0,
           precipitation_intensity_interval = 60000, previous_precipitation_timestamp = 0,
           previous_precipitation = Some 100, upper_night_threshold = Val 5.5,
           lower_night_threshold = Val 4.5\<rparr>, detect_night_statics_init)
      = Some (\<lparr>sensors = {precipitation_intensity_sensor},
           published = [(precipitation_intensity_sensor, Number (Val (65435 * 0.3 / (61 / 3600))))],
           first_data_received = True, last_packet_time = 61000000000,
           precipitation_intensity_interval = 60000,
           previous_precipitation_timestamp = 61000000000,
           previous_precipitation = Some 0xFFFF, upper_night_threshold = Val 5.5,
           lower_night_threshold = Val 4.5\<rparr>, detect_night_statics_init)"
    by (simp add: tick_defs) (simp add: block_defs raw_defs)
  show ?thesis
    unfolding run.simps t1 t2 option.case by simp
qed

section \<open>The precipitation baseline\<close>

lemma matches_spec_session_tick:
  assumes cfg: "precipitation_intensity_sensor \<in> sensors s"
    and m: "matches_spec_session s a"
    and valid: "classify rx \<noteq> WRONG_PACKET \<longrightarrow> accumulated_precipitation rx \<noteq> 0xFFFF"
    and l: "loop now rx (s, g) = Some (s', g')"
  shows "matches_spec_session s' (spec_tick now rx a) \<and> sensors s' = sensors s"
proof -
  define s1 where "s1 = (if communication_timeout now s
      then reset_sub_entities (s\<lparr>first_data_received := False\<rparr>) else s)"
  define a1 where "a1 = (if spec_first_data_received a
                   \<and> now - spec_last_packet_time a > COMMUNICATION_TIMOUT * 1000000
                then a\<lparr>spec_first_data_received := False, spec_has_baseline := False\<rparr>
                else a)"
  have c: "communication_timeout now s
      \<longleftrightarrow> spec_first_data_received a
          \<and> now - spec_last_packet_time a > COMMUNICATION_TIMOUT * 1000000"
    using m by (auto simp add: communication_timeout_def matches_spec_session_def)
  have m1: "matches_spec_session s1 a1" and sn1: "sensors s1 = sensors s"
    using m cfg c unfolding s1_def a1_def
    by (simp_all add: matches_spec_session_def reset_sub_entities_eq del: filter.simps)
  show ?thesis
  proof (cases "rx = []")
    case True
    then have "s' = s1" using l by (simp add: loop_no_bytes s1_def)
    moreover have "spec_tick now rx a = a1"
      using True by (simp add: spec_tick_def a1_def Let_def)
    ultimately show ?thesis using m1 sn1 by simp
  next
    case False
    define s2 where "s2 = s1\<lparr>first_data_received := True, last_packet_time := now\<rparr>"
    define a2 where "a2 = a1\<lparr>spec_first_data_received := True, spec_last_packet_time := now\<rparr>"
    have m2: "matches_spec_session s2 a2" and sn2: "sensors s2 = sensors s"
      using m1 sn1 by (simp_all add: matches_spec_session_def s2_def a2_def)
    show ?thesis
    proof (cases "classify rx \<noteq> WRONG_PACKET")
      case True
      then have p: "process_packet rx (classify rx = BASIC_WITH_PRESSURE) now (s2, g) = (s', g')"
        using l False by (simp add: loop_bytes Let_def s1_def s2_def)
      have "spec_tick now rx a = a2\<lparr>spec_has_baseline := True\<rparr>"
        using False True valid by (simp add: spec_tick_def Let_def a1_def a2_def)
      then show ?thesis
        using process_packet_fields [OF p] m2 sn2
        by (simp add: matches_spec_session_def)
    next
      case wrong: False
      then have "s' = s2"
        using l False by (simp add: loop_bytes Let_def s1_def s2_def)
      moreover have "spec_tick now rx a = a2"
        using False wrong by (simp add: spec_tick_def Let_def a1_def a2_def)
      ultimately show ?thesis using m2 sn2 by simp
    qed
  qed
qed

lemma matches_spec_session_run:
  assumes "precipitation_intensity_sensor \<in> sensors s"
    and "matches_spec_session s a"
    and "\<forall>(now, rx) \<in> set ticks.
           classify rx \<noteq> WRONG_PACKET \<longrightarrow> accumulated_precipitation rx \<noteq> 0xFFFF"
  shows "\<exists>s' g'. run ticks (s, g) = Some (s', g')
      \<and> matches_spec_session s' (spec_run ticks a)
      \<and> precipitation_intensity_sensor \<in> sensors s'"
  using assms
proof (induction ticks arbitrary: s g a)
  case Nil
  then show ?case by simp
next
  case (Cons tick ticks)
  obtain now rx where tick: "tick = (now, rx)" by (cases tick)
  obtain s1 g1 where l: "loop now rx (s, g) = Some (s1, g1)"
    using loop_total by blast
  have valid: "classify rx \<noteq> WRONG_PACKET \<longrightarrow> accumulated_precipitation rx \<noteq> 0xFFFF"
    using Cons.prems(3) tick by simp
  from matches_spec_session_tick [OF Cons.prems(1,2) valid l]
  have m1: "matches_spec_session s1 (spec_tick now rx a)"
    and sn: "precipitation_intensity_sensor \<in> sensors s1"
    using Cons.prems(1) by simp_all
  have rest: "\<forall>(now, rx) \<in> set ticks.
           classify rx \<noteq> WRONG_PACKET \<longrightarrow> accumulated_precipitation rx \<noteq> 0xFFFF"
    using Cons.prems(3) by simp
  from Cons.IH [OF sn m1 rest, of g1] show ?case
    using tick l by simp
qed

lemma timeout_drops_baseline:
  assumes "precipitation_intensity_sensor \<in> sensors s" and "communication_timeout now s"
  shows "\<exists>s' g'. loop now [] (s, g) = Some (s', g') \<and> previous_precipitation s' = None"
  using assms by (simp add: loop_no_bytes reset_sub_entities_eq del: filter.simps)

lemma precipitation_intensity_block_misol_baseline:
  "previos_precipitation (snd (snd (precipitation_intensity_block_misol accumulated now clk s)))
      \<noteq> 0xFFFF \<longleftrightarrow> accumulated \<noteq> 0xFFFF"
  by (simp add: precipitation_intensity_block_misol_def Let_def)

lemma precipitation_block_misol_baseline:
  "previos_precipitation (precipitation_block_misol data now clk s) \<noteq> 0xFFFF
     \<longleftrightarrow> accumulated_precipitation data \<noteq> 0xFFFF"
proof -
  obtain u r s1 where p: "precipitation_intensity_block_misol (accumulated_precipitation data)
      now clk s = (u, r, s1)"
    by (cases "precipitation_intensity_block_misol (accumulated_precipitation data) now clk s")
  have "previos_precipitation s1 \<noteq> 0xFFFF \<longleftrightarrow> accumulated_precipitation data \<noteq> 0xFFFF"
    using precipitation_intensity_block_misol_baseline
      [of "accumulated_precipitation data" now clk s] p by simp
  then show ?thesis
    by (simp add: precipitation_block_misol_def p Let_def publish_if_set_def publish_state_def)
qed

lemma process_packet_misol_baseline:
  assumes "process_packet_misol data has_pressure now clk s = Some s'"
  shows "previos_precipitation s' \<noteq> 0xFFFF \<longleftrightarrow> accumulated_precipitation data \<noteq> 0xFFFF"
proof -
  have b: "battery_level_binary_sensor \<in> sensors s"
    using assms process_packet_misol_None [of s data has_pressure now clk] by force
  define s2 where "s2 = wind_direction_block data (pressure_block data has_pressure s)"
  have "publishes_only s s2"
    unfolding s2_def by (intro publishes_only_blocks)
  then have "battery_level_binary_sensor \<in> sensors s2"
    using b by (simp add: publishes_only_common)
  then have bb: "battery_block_misol data s2
      = Some (publish_state battery_level_binary_sensor (Binary (low_battery data)) s2)"
    by (simp add: battery_block_misol_def)
  define s7 where "s7 = wind_gust_block data (wind_speed_block data (humidity_block_misol data
    (temperature_block data
      (publish_state battery_level_binary_sensor (Binary (low_battery data)) s2))))"
  define s8 where "s8 = precipitation_block_misol data now clk s7"
  have "publishes_only s8 (light_block data (uv_block_misol data s8))"
    by (intro publishes_only_blocks)
  then obtain e3 where s10: "light_block data (uv_block_misol data s8)
      = s8\<lparr>published := published s8 @ e3\<rparr>"
    by (auto simp: publishes_only_def)
  have "process_packet_misol data has_pressure now clk s
      = Some (light_block data (uv_block_misol data s8))"
    using bb by (simp add: process_packet_misol_def Let_def s2_def s7_def s8_def)
  then have "s' = s8\<lparr>published := published s8 @ e3\<rparr>"
    using assms s10 by simp
  then show ?thesis
    using precipitation_block_misol_baseline [of data now clk s7] by (simp add: s8_def)
qed

lemma reset_sub_entities_misol_baseline:
  "precipitation_intensity_sensor \<in> sensors s \<Longrightarrow>
   previos_precipitation (reset_sub_entities_misol s) = 0xFFFF"
proof -
  have r: "publishes_only s (reset_sensors s)" by simp
  assume "precipitation_intensity_sensor \<in> sensors s"
  then show ?thesis
    by (simp add: reset_sub_entities_misol_def Let_def publishes_only_common [OF r])
qed

lemma loop_misol_sensors:
  assumes "loop_misol now clk rx s = Some s'"
  shows "sensors s' = sensors s"
proof -
  define s1 where "s1 = (if communication_timeout now s
      then reset_sub_entities_misol (s\<lparr>first_data_received := False\<rparr>) else s)"
  have sn1: "sensors s1 = sensors s"
    by (simp add: s1_def reset_sub_entities_misol_fields)
  show ?thesis
  proof (cases "rx = []")
    case True
    then show ?thesis using assms sn1 by (simp add: loop_misol_no_bytes s1_def)
  next
    case False
    define s2 where "s2 = s1\<lparr>first_data_received := True, last_packet_time := now\<rparr>"
    have sn2: "sensors s2 = sensors s" using sn1 by (simp add: s2_def)
    show ?thesis
    proof (cases "classify rx \<noteq> WRONG_PACKET")
      case True
      then have "process_packet_misol rx (classify rx = BASIC_WITH_PRESSURE) now clk s2 = Some s'"
        using assms False by (simp add: loop_misol_bytes Let_def s1_def s2_def)
      from process_packet_misol_fields(1) [OF this] sn2 show ?thesis by simp
    next
      case wrong: False
      then have "s' = s2"
        using assms False by (simp add: loop_misol_bytes Let_def s1_def s2_def)
      then show ?thesis using sn2 by simp
    qed
  qed
qed

lemma loop_misol_has_result_any:
  "(\<exists>s'. loop_misol now clk rx s = Some s')
     \<longleftrightarrow> classify rx = WRONG_PACKET \<or> battery_level_binary_sensor \<in> sensors s"
proof (cases "rx = []")
  case True
  then show ?thesis by (simp add: loop_misol_no_bytes classify_def)
next
  case False
  then show ?thesis by (rule loop_misol_has_result)
qed

lemma run_misol_has_result:
  "(\<exists>s'. run_misol ticks s = Some s')
     \<longleftrightarrow> battery_level_binary_sensor \<in> sensors s
         \<or> list_all (\<lambda>(now, clk, rx). classify rx = WRONG_PACKET) ticks"
proof (induction ticks arbitrary: s)
  case Nil
  then show ?case by simp
next
  case (Cons tick ticks)
  obtain now clk rx where tick: "tick = (now, clk, rx)" by (cases tick)
  show ?case
  proof (cases "loop_misol now clk rx s")
    case None
    then have "\<not> (classify rx = WRONG_PACKET \<or> battery_level_binary_sensor \<in> sensors s)"
      using loop_misol_has_result_any [of now clk rx s] by simp
    then show ?thesis using None tick by simp
  next
    case (Some s1)
    then have c: "classify rx = WRONG_PACKET \<or> battery_level_binary_sensor \<in> sensors s"
      using loop_misol_has_result_any [of now clk rx s] by blast
    have sn: "sensors s1 = sensors s" using Some by (rule loop_misol_sensors)
    show ?thesis
      using Cons.IH [of s1] Some tick c sn by auto
  qed
qed

lemma matches_spec_session_misol_tick:
  assumes cfg: "precipitation_intensity_sensor \<in> sensors s"
    and m: "matches_spec_session_misol s a"
    and l: "loop_misol now clk rx s = Some s'"
  shows "matches_spec_session_misol s' (spec_tick now rx a)"
proof -
  define s1 where "s1 = (if communication_timeout now s
      then reset_sub_entities_misol (s\<lparr>first_data_received := False\<rparr>) else s)"
  define a1 where "a1 = (if spec_first_data_received a
                   \<and> now - spec_last_packet_time a > COMMUNICATION_TIMOUT * 1000000
                then a\<lparr>spec_first_data_received := False, spec_has_baseline := False\<rparr>
                else a)"
  have c: "communication_timeout now s
      \<longleftrightarrow> spec_first_data_received a
          \<and> now - spec_last_packet_time a > COMMUNICATION_TIMOUT * 1000000"
    using m by (auto simp add: communication_timeout_def matches_spec_session_misol_def)
  have m1: "matches_spec_session_misol s1 a1"
    using m cfg c unfolding s1_def a1_def
    by (simp add: matches_spec_session_misol_def reset_sub_entities_misol_fields
        reset_sub_entities_misol_baseline)
  show ?thesis
  proof (cases "rx = []")
    case True
    then have "s' = s1" using l by (simp add: loop_misol_no_bytes s1_def)
    moreover have "spec_tick now rx a = a1"
      using True by (simp add: spec_tick_def a1_def Let_def)
    ultimately show ?thesis using m1 by simp
  next
    case False
    define s2 where "s2 = s1\<lparr>first_data_received := True, last_packet_time := now\<rparr>"
    define a2 where "a2 = a1\<lparr>spec_first_data_received := True, spec_last_packet_time := now\<rparr>"
    have m2: "matches_spec_session_misol s2 a2"
      using m1 by (simp add: matches_spec_session_misol_def s2_def a2_def)
    show ?thesis
    proof (cases "classify rx \<noteq> WRONG_PACKET")
      case True
      then have p: "process_packet_misol rx (classify rx = BASIC_WITH_PRESSURE) now clk s2
          = Some s'"
        using l False by (simp add: loop_misol_bytes Let_def s1_def s2_def)
      have "spec_tick now rx a
          = a2\<lparr>spec_has_baseline := (accumulated_precipitation rx \<noteq> 0xFFFF)\<rparr>"
        using False True by (simp add: spec_tick_def Let_def a1_def a2_def)
      then show ?thesis
        using process_packet_misol_fields [OF p] process_packet_misol_baseline [OF p] m2
        by (simp add: matches_spec_session_misol_def)
    next
      case wrong: False
      then have "s' = s2"
        using l False by (simp add: loop_misol_bytes Let_def s1_def s2_def)
      moreover have "spec_tick now rx a = a2"
        using False wrong by (simp add: spec_tick_def Let_def a1_def a2_def)
      ultimately show ?thesis using m2 by simp
    qed
  qed
qed

lemma matches_spec_session_misol_run:
  assumes "precipitation_intensity_sensor \<in> sensors s"
    and "matches_spec_session_misol s a"
    and "run_misol ticks s = Some s'"
  shows "matches_spec_session_misol s'
        (spec_run (map (\<lambda>(now, clk, rx). (now, rx)) ticks) a)
      \<and> precipitation_intensity_sensor \<in> sensors s'"
  using assms
proof (induction ticks arbitrary: s a)
  case Nil
  then show ?case by simp
next
  case (Cons tick ticks)
  obtain now clk rx where tick: "tick = (now, clk, rx)" by (cases tick)
  from Cons.prems(3) tick obtain s1 where l: "loop_misol now clk rx s = Some s1"
    and r: "run_misol ticks s1 = Some s'"
    by (auto split: option.splits)
  have m1: "matches_spec_session_misol s1 (spec_tick now rx a)"
    using matches_spec_session_misol_tick [OF Cons.prems(1,2) l] .
  have sn: "precipitation_intensity_sensor \<in> sensors s1"
    using loop_misol_sensors [OF l] Cons.prems(1) by simp
  from Cons.IH [OF sn m1 r] show ?case
    using tick by simp
qed

lemma timeout_drops_baseline_misol:
  assumes "precipitation_intensity_sensor \<in> sensors s" and "communication_timeout now s"
  shows "\<exists>s'. loop_misol now clk [] s = Some s' \<and> previos_precipitation s' = 0xFFFF"
  using assms by (simp add: loop_misol_no_bytes reset_sub_entities_misol_baseline)

text \<open>
  Claim C7, as amended. With the precipitation intensity sensor set, at every state a session
  reaches from its start (no data received, no baseline) the stored last counter value is
  absent exactly when the specification's session has no baseline: before the first accepted
  packet, or after a communication timeout and before the next accepted packet; and a timeout
  at such a state sets it back to absent.
  \<^item> In namespace \<open>misol_weather\<close> the value is \<open>previous_precipitation_\<close> and absent is \<open>nullopt\<close>;
    this is stated for sessions whose accepted packets carry a counter other than the sentinel,
    and every such session has a result.
  \<^item> In namespace \<open>misol\<close> the value is \<open>previos_precipitation_\<close> and absent is the marker
    \<open>0xFFFF\<close>; this holds for every session that has a result, also when an accepted packet
    carries the sentinel counter, which drops the baseline here as in the specification. A
    session has a result exactly when the battery sensor is set or no buffer of it is
    accepted.
\<close>

theorem baseline_absent_iff_not_established:
  "(precipitation_intensity_sensor \<in> sensors s0
      \<and> \<not> first_data_received s0 \<and> previous_precipitation s0 = None
      \<and> (\<forall>(now, rx) \<in> set ticks.
            classify rx \<noteq> WRONG_PACKET \<longrightarrow> accumulated_precipitation rx \<noteq> 0xFFFF)
    \<longrightarrow> (\<exists>s g. run ticks (s0, g0) = Some (s, g)
          \<and> (previous_precipitation s = None
               \<longleftrightarrow> \<not> spec_has_baseline (spec_run ticks spec_session_init))
          \<and> (communication_timeout now s \<longrightarrow>
               (\<exists>s' g'. loop now [] (s, g) = Some (s', g') \<and> previous_precipitation s' = None))))
   \<and> (precipitation_intensity_sensor \<in> sensors m0
      \<and> \<not> first_data_received m0 \<and> previos_precipitation m0 = 0xFFFF
    \<longrightarrow> (\<forall>m. run_misol mticks m0 = Some m \<longrightarrow>
            (previos_precipitation m = 0xFFFF
               \<longleftrightarrow> \<not> spec_has_baseline
                     (spec_run (map (\<lambda>(now, steady_clock_now, rx). (now, rx)) mticks)
                        spec_session_init))
            \<and> (communication_timeout now m \<longrightarrow>
                 (\<exists>m'. loop_misol now steady_clock_now [] m = Some m'
                    \<and> previos_precipitation m' = 0xFFFF)))
        \<and> ((\<exists>m. run_misol mticks m0 = Some m)
             \<longleftrightarrow> battery_level_binary_sensor \<in> sensors m0
                 \<or> list_all (\<lambda>(now, steady_clock_now, rx). classify rx = WRONG_PACKET) mticks))"
proof (intro conjI impI)
  assume h: "precipitation_intensity_sensor \<in> sensors s0
      \<and> \<not> first_data_received s0 \<and> previous_precipitation s0 = None
      \<and> (\<forall>(now, rx) \<in> set ticks.
            classify rx \<noteq> WRONG_PACKET \<longrightarrow> accumulated_precipitation rx \<noteq> 0xFFFF)"
  then have cfg: "precipitation_intensity_sensor \<in> sensors s0"
    and valid: "\<forall>(now, rx) \<in> set ticks.
            classify rx \<noteq> WRONG_PACKET \<longrightarrow> accumulated_precipitation rx \<noteq> 0xFFFF"
    by blast+
  have "matches_spec_session s0 spec_session_init"
    using h by (simp add: matches_spec_session_def spec_session_init_def)
  then obtain s g where r:
    "run ticks (s0, g0) = Some (s, g)"
    "matches_spec_session s (spec_run ticks spec_session_init)"
    "precipitation_intensity_sensor \<in> sensors s"
    using matches_spec_session_run [OF cfg _ valid] by blast
  have a: "previous_precipitation s = None
      \<longleftrightarrow> \<not> spec_has_baseline (spec_run ticks spec_session_init)"
    using r(2) by (auto simp: matches_spec_session_def)
  have b: "communication_timeout now s \<longrightarrow>
      (\<exists>s' g'. loop now [] (s, g) = Some (s', g') \<and> previous_precipitation s' = None)"
    using timeout_drops_baseline [OF r(3)] by blast
  from r(1) a b have "run ticks (s0, g0) = Some (s, g)
      \<and> (previous_precipitation s = None
           \<longleftrightarrow> \<not> spec_has_baseline (spec_run ticks spec_session_init))
      \<and> (communication_timeout now s \<longrightarrow>
           (\<exists>s' g'. loop now [] (s, g) = Some (s', g') \<and> previous_precipitation s' = None))"
    by (intro conjI)
  then show "\<exists>s g. run ticks (s0, g0) = Some (s, g)
      \<and> (previous_precipitation s = None
           \<longleftrightarrow> \<not> spec_has_baseline (spec_run ticks spec_session_init))
      \<and> (communication_timeout now s \<longrightarrow>
           (\<exists>s' g'. loop now [] (s, g) = Some (s', g') \<and> previous_precipitation s' = None))"
    by (intro exI)
next
  assume h: "precipitation_intensity_sensor \<in> sensors m0
      \<and> \<not> first_data_received m0 \<and> previos_precipitation m0 = 0xFFFF"
  then have cfg: "precipitation_intensity_sensor \<in> sensors m0" by blast
  have m0: "matches_spec_session_misol m0 spec_session_init"
    using h by (simp add: matches_spec_session_misol_def spec_session_init_def)
  show "\<forall>m. run_misol mticks m0 = Some m \<longrightarrow>
            (previos_precipitation m = 0xFFFF
               \<longleftrightarrow> \<not> spec_has_baseline
                     (spec_run (map (\<lambda>(now, steady_clock_now, rx). (now, rx)) mticks)
                        spec_session_init))
            \<and> (communication_timeout now m \<longrightarrow>
                 (\<exists>m'. loop_misol now steady_clock_now [] m = Some m'
                    \<and> previos_precipitation m' = 0xFFFF))"
  proof (intro allI impI)
    fix m
    assume r: "run_misol mticks m0 = Some m"
    from matches_spec_session_misol_run [OF cfg m0 r]
    have mm: "matches_spec_session_misol m
        (spec_run (map (\<lambda>(now, steady_clock_now, rx). (now, rx)) mticks) spec_session_init)"
      and sn: "precipitation_intensity_sensor \<in> sensors m"
      by simp_all
    have a: "previos_precipitation m = 0xFFFF
        \<longleftrightarrow> \<not> spec_has_baseline
              (spec_run (map (\<lambda>(now, steady_clock_now, rx). (now, rx)) mticks)
                 spec_session_init)"
      using mm by (auto simp: matches_spec_session_misol_def)
    have b: "communication_timeout now m \<longrightarrow>
        (\<exists>m'. loop_misol now steady_clock_now [] m = Some m'
           \<and> previos_precipitation m' = 0xFFFF)"
      using timeout_drops_baseline_misol [OF sn] by blast
    from a b show "(previos_precipitation m = 0xFFFF
               \<longleftrightarrow> \<not> spec_has_baseline
                     (spec_run (map (\<lambda>(now, steady_clock_now, rx). (now, rx)) mticks)
                        spec_session_init))
            \<and> (communication_timeout now m \<longrightarrow>
                 (\<exists>m'. loop_misol now steady_clock_now [] m = Some m'
                    \<and> previos_precipitation m' = 0xFFFF))"
      by (intro conjI)
  qed
next
  show "(\<exists>m. run_misol mticks m0 = Some m)
             \<longleftrightarrow> battery_level_binary_sensor \<in> sensors m0
                 \<or> list_all (\<lambda>(now, steady_clock_now, rx). classify rx = WRONG_PACKET) mticks"
    by (rule run_misol_has_result)
qed

text \<open>
  A station with the precipitation intensity sensor that receives a packet with counter 100
  at time 0: it has a baseline, a tick 121 seconds later drops it, and after that tick it
  has none. The same in namespace \<open>misol\<close>, on a station that also has the battery sensor;
  there a second packet that carries the sentinel counter drops the baseline as well.
\<close>

theorem baseline_absent_iff_not_established_witness:
  "(\<exists>s g. run [(0, [0x24, 0, 0, 0, 0, 0, 0, 0, 0, 100, 0, 0, 0, 0, 0, 0, 0x88])]
             (WeatherStation_init {precipitation_intensity_sensor}, detect_night_statics_init)
           = Some (s, g)
         \<and> previous_precipitation s \<noteq> None
         \<and> (\<exists>s' g'. loop 121000000000 [] (s, g) = Some (s', g')
               \<and> previous_precipitation s' = None))
   \<and> (\<exists>s g. run [(0, [0x24, 0, 0, 0, 0, 0, 0, 0, 0, 100, 0, 0, 0, 0, 0, 0, 0x88]),
                  (121000000000, [])]
             (WeatherStation_init {precipitation_intensity_sensor}, detect_night_statics_init)
           = Some (s, g)
         \<and> previous_precipitation s = None)
   \<and> (\<exists>m. run_misol [(0, 0, [0x24, 0, 0, 0, 0, 0, 0, 0, 0, 100, 0, 0, 0, 0, 0, 0, 0x88])]
             \<lparr>sensors = {precipitation_intensity_sensor, battery_level_binary_sensor},
               published = [], first_data_received = False, last_packet_time = 0,
               previos_precipitation_timestamp = 0, previos_precipitation = 0xFFFF\<rparr>
           = Some m
         \<and> previos_precipitation m \<noteq> 0xFFFF
         \<and> (\<exists>m'. loop_misol 121000000000 121000000000 [] m = Some m'
               \<and> previos_precipitation m' = 0xFFFF))
   \<and> (\<exists>m. run_misol [(0, 0, [0x24, 0, 0, 0, 0, 0, 0, 0, 0, 100, 0, 0, 0, 0, 0, 0, 0x88]),
                      (1000000000, 1000000000,
                       [0x24, 0, 0, 0, 0, 0, 0, 0, 0xFF, 0xFF, 0, 0, 0, 0, 0, 0, 0x22])]
             \<lparr>sensors = {precipitation_intensity_sensor, battery_level_binary_sensor},
               published = [], first_data_received = False, last_packet_time = 0,
               previos_precipitation_timestamp = 0, previos_precipitation = 0xFFFF\<rparr>
           = Some m
         \<and> previos_precipitation m = 0xFFFF)"
proof -
  let ?P = "[0x24, 0, 0, 0, 0, 0, 0, 0, 0, 100, 0, 0, 0, 0, 0, 0, 0x88] :: byte list"
  let ?Q = "[0x24, 0, 0, 0, 0, 0, 0, 0, 0xFF, 0xFF, 0, 0, 0, 0, 0, 0, 0x22] :: byte list"
  let ?s0 = "WeatherStation_init {precipitation_intensity_sensor}"
  let ?m0 = "\<lparr>sensors = {precipitation_intensity_sensor, battery_level_binary_sensor},
               published = [], first_data_received = False, last_packet_time = 0,
               previos_precipitation_timestamp = 0, previos_precipitation = 0xFFFF\<rparr>"
  have fresh: "precipitation_intensity_sensor \<in> sensors ?s0"
      "\<not> first_data_received ?s0" "previous_precipitation ?s0 = None"
    by (simp_all add: WeatherStation_init_def)
  have mfresh: "precipitation_intensity_sensor \<in> sensors ?m0
      \<and> \<not> first_data_received ?m0 \<and> previos_precipitation ?m0 = 0xFFFF"
    by simp
  have c: "classify ?P = BASIC_PACKET"
    by (simp add: classify_def sum_mod_256_def)
  have cq: "classify ?Q = BASIC_PACKET"
    by (simp add: classify_def sum_mod_256_def)
  have v1: "\<forall>(now, rx) \<in> set [(0 :: time_point, ?P)].
      classify rx \<noteq> WRONG_PACKET \<longrightarrow> accumulated_precipitation rx \<noteq> 0xFFFF"
    by (simp add: accumulated_precipitation_def)
  have v2: "\<forall>(now, rx) \<in> set [(0 :: time_point, ?P), (121000000000, [])].
      classify rx \<noteq> WRONG_PACKET \<longrightarrow> accumulated_precipitation rx \<noteq> 0xFFFF"
    by (simp add: accumulated_precipitation_def classify_def)
  have a1: "spec_tick 0 ?P spec_session_init
      = \<lparr>spec_first_data_received = True, spec_last_packet_time = 0, spec_has_baseline = True\<rparr>"
    by (simp add: spec_tick_def spec_session_init_def c accumulated_precipitation_def)
  have b1: "spec_has_baseline (spec_run [(0, ?P)] spec_session_init)"
    unfolding spec_run.simps a1 by simp
  have b2: "\<not> spec_has_baseline (spec_run [(0, ?P), (121000000000, [])] spec_session_init)"
    unfolding spec_run.simps a1
    by (simp add: spec_tick_def COMMUNICATION_TIMOUT_def)
  have b3: "\<not> spec_has_baseline (spec_run [(0, ?P), (1000000000, ?Q)] spec_session_init)"
    unfolding spec_run.simps a1
    by (simp add: spec_tick_def COMMUNICATION_TIMOUT_def cq accumulated_precipitation_def)
  note t1 = baseline_absent_iff_not_established
    [of ?s0 "[(0, ?P)]" detect_night_statics_init 121000000000
        ?m0 "[(0, 0, ?P)]" 121000000000]
  note t2 = baseline_absent_iff_not_established
    [of ?s0 "[(0, ?P), (121000000000, [])]" detect_night_statics_init 0
        ?m0 "[(0, 0, ?P), (1000000000, 1000000000, ?Q)]" 0]
  from t1 fresh v1 b1
  obtain s g where r1: "run [(0, ?P)] (?s0, detect_night_statics_init) = Some (s, g)"
      "previous_precipitation s \<noteq> None"
      "communication_timeout 121000000000 s \<longrightarrow>
           (\<exists>s' g'. loop 121000000000 [] (s, g) = Some (s', g') \<and> previous_precipitation s' = None)"
    by blast
  obtain s1 g1 where l: "loop 0 ?P (?s0, detect_night_statics_init) = Some (s1, g1)"
    using loop_total by blast
  have "first_data_received s1" "last_packet_time s1 = 0"
    using loop_received [OF _ l] by simp_all
  moreover have "s1 = s" using l r1(1) by simp
  ultimately have "communication_timeout 121000000000 s"
    by (simp add: communication_timeout_def COMMUNICATION_TIMOUT_def)
  with r1 have first: "\<exists>s g. run [(0, ?P)] (?s0, detect_night_statics_init) = Some (s, g)
         \<and> previous_precipitation s \<noteq> None
         \<and> (\<exists>s' g'. loop 121000000000 [] (s, g) = Some (s', g')
               \<and> previous_precipitation s' = None)"
    by blast
  from t2 fresh v2 b2
  have second: "\<exists>s g. run [(0, ?P), (121000000000, [])] (?s0, detect_night_statics_init)
           = Some (s, g)
         \<and> previous_precipitation s = None"
    by blast
  from t1 mfresh obtain m where m: "run_misol [(0, 0, ?P)] ?m0 = Some m"
    by auto
  with t1 mfresh b1 have mb: "previos_precipitation m \<noteq> 0xFFFF"
    and mt: "communication_timeout 121000000000 m \<longrightarrow>
        (\<exists>m'. loop_misol 121000000000 121000000000 [] m = Some m'
           \<and> previos_precipitation m' = 0xFFFF)"
    by auto
  have lm: "loop_misol 0 0 ?P ?m0 = Some m"
    using m by (simp split: option.splits)
  have "first_data_received m \<and> last_packet_time m = 0"
    using loop_misol_result [OF _ lm] by simp
  then have "communication_timeout 121000000000 m"
    by (simp add: communication_timeout_def COMMUNICATION_TIMOUT_def)
  with m mb mt have third: "\<exists>m. run_misol [(0, 0, ?P)] ?m0 = Some m
         \<and> previos_precipitation m \<noteq> 0xFFFF
         \<and> (\<exists>m'. loop_misol 121000000000 121000000000 [] m = Some m'
               \<and> previos_precipitation m' = 0xFFFF)"
    by blast
  from t2 mfresh obtain n where n: "run_misol [(0, 0, ?P), (1000000000, 1000000000, ?Q)] ?m0
      = Some n"
    by auto
  with t2 mfresh b3 have "previos_precipitation n = 0xFFFF"
    by auto
  with n have fourth: "\<exists>m. run_misol [(0, 0, ?P), (1000000000, 1000000000, ?Q)] ?m0 = Some m
         \<and> previos_precipitation m = 0xFFFF"
    by blast
  from first second third fourth show ?thesis
    by (intro conjI)
qed

text \<open>
  The claim as stated fails: a station with a temperature sensor and no precipitation
  intensity sensor receives a packet with counter 100 at time 0 and nothing until a tick 121
  seconds later. That tick times out (it publishes NaN for the temperature and clears
  \<open>first_data_received_\<close>), and \<open>previous_precipitation_\<close> still holds 100.
\<close>

theorem timeout_keeps_baseline:
  "map_option (\<lambda>sg. (first_data_received (fst sg), published (fst sg),
                       previous_precipitation (fst sg)))
     (run [(0, [0x24, 0, 0, 0, 0, 0, 0, 0, 0, 100, 0, 0, 0, 0, 0, 0, 0x88]), (121000000000, [])]
        (WeatherStation_init {temperature_sensor}, detect_night_statics_init))
   = Some (False,
           [(temperature_sensor, Number (Val (- 40))), (temperature_sensor, Number NAN)],
           Some 100)"
proof -
  have t1: "loop 0 [0x24, 0, 0, 0, 0, 0, 0, 0, 0, 100, 0, 0, 0, 0, 0, 0, 0x88]
     (WeatherStation_init {temperature_sensor}, detect_night_statics_init)
   = Some (\<lparr>sensors = {temperature_sensor},
            published = [(temperature_sensor, Number (Val (- 40)))],
            first_data_received = True, last_packet_time = 0,
            precipitation_intensity_interval = 300000, previous_precipitation_timestamp = 0,
            previous_precipitation = Some 100, upper_night_threshold = Val 5.5,
            lower_night_threshold = Val 4.5\<rparr>, detect_night_statics_init)"
    by (simp add: tick_defs) (simp add: block_defs raw_defs)
  have t2: "loop 121000000000 []
     (\<lparr>sensors = {temperature_sensor},
            published = [(temperature_sensor, Number (Val (- 40)))],
            first_data_received = True, last_packet_time = 0,
            precipitation_intensity_interval = 300000, previous_precipitation_timestamp = 0,
            previous_precipitation = Some 100, upper_night_threshold = Val 5.5,
            lower_night_threshold = Val 4.5\<rparr>, detect_night_statics_init)
   = Some (\<lparr>sensors = {temperature_sensor},
            published = [(temperature_sensor, Number (Val (- 40))),
                         (temperature_sensor, Number NAN)],
            first_data_received = False, last_packet_time = 0,
            precipitation_intensity_interval = 300000, previous_precipitation_timestamp = 0,
            previous_precipitation = Some 100, upper_night_threshold = Val 5.5,
            lower_night_threshold = Val 4.5\<rparr>, detect_night_statics_init)"
    by (simp add: tick_defs) (simp add: block_defs raw_defs)
  show ?thesis
    unfolding run.simps t1 t2 option.case by simp
qed

section \<open>Two stations in one process\<close>

lemma same_but_night_refl [simp]: "same_but_night s s"
  by (simp add: same_but_night_def)

lemma same_but_night_sensors: "same_but_night s t \<Longrightarrow> sensors s = sensors t"
  by (simp add: same_but_night_def)

lemma same_but_night_publish_state:
  "same_but_night s t \<Longrightarrow> same_but_night (publish_state sn v s) (publish_state sn v t)"
  by (simp add: same_but_night_def publish_state_def hide_night_def)

lemma same_but_night_publish_night:
  "same_but_night s t \<Longrightarrow>
   same_but_night (publish_state night_binary_sensor v s) (publish_state night_binary_sensor w t)"
  by (simp add: same_but_night_def publish_state_def hide_night_def)

lemma same_but_night_publish_if_set:
  "same_but_night s t \<Longrightarrow> same_but_night (publish_if_set sn v s) (publish_if_set sn v t)"
  by (simp add: publish_if_set_def same_but_night_publish_state same_but_night_sensors)

lemma sensors_publish_state [simp]: "sensors (publish_state sn v s) = sensors s"
  by (simp add: publish_state_def)

lemma sensors_publish_if_set [simp]: "sensors (publish_if_set sn v s) = sensors s"
  by (simp add: publish_if_set_def)

lemma same_but_night_baseline:
  "same_but_night s t \<Longrightarrow>
   same_but_night (s\<lparr>previous_precipitation := p, previous_precipitation_timestamp := ts\<rparr>)
     (t\<lparr>previous_precipitation := p, previous_precipitation_timestamp := ts\<rparr>)"
  by (simp add: same_but_night_def)

lemma same_but_night_received:
  "same_but_night s t \<Longrightarrow>
   same_but_night (s\<lparr>first_data_received := b, last_packet_time := now\<rparr>)
     (t\<lparr>first_data_received := b, last_packet_time := now\<rparr>)"
  by (simp add: same_but_night_def)

lemma same_but_night_pressure_block:
  "same_but_night s t \<Longrightarrow>
   same_but_night (pressure_block data hp s) (pressure_block data hp t)"
  by (simp add: pressure_block_def same_but_night_publish_state same_but_night_sensors)

lemma same_but_night_wind_direction_block:
  "same_but_night s t \<Longrightarrow>
   same_but_night (wind_direction_block data s) (wind_direction_block data t)"
  by (simp add: wind_direction_block_def same_but_night_publish_state same_but_night_sensors)

lemma same_but_night_battery_block:
  "same_but_night s t \<Longrightarrow> same_but_night (battery_block data s) (battery_block data t)"
  by (simp add: battery_block_def same_but_night_publish_if_set)

lemma same_but_night_temperature_block:
  "same_but_night s t \<Longrightarrow> same_but_night (temperature_block data s) (temperature_block data t)"
  by (simp add: temperature_block_def same_but_night_publish_if_set)

lemma same_but_night_humidity_block:
  "same_but_night s t \<Longrightarrow> same_but_night (humidity_block data s) (humidity_block data t)"
  by (simp add: humidity_block_def same_but_night_publish_if_set)

lemma same_but_night_wind_speed_block:
  "same_but_night s t \<Longrightarrow> same_but_night (wind_speed_block data s) (wind_speed_block data t)"
  by (simp add: wind_speed_block_def same_but_night_publish_if_set)

lemma same_but_night_wind_gust_block:
  "same_but_night s t \<Longrightarrow> same_but_night (wind_gust_block data s) (wind_gust_block data t)"
  by (simp add: wind_gust_block_def same_but_night_publish_state same_but_night_sensors)

lemma same_but_night_precipitation_block:
  assumes "same_but_night s t"
  shows "same_but_night (precipitation_block data now s) (precipitation_block data now t)"
proof -
  obtain u r s1 where bs: "precipitation_intensity_block (accumulated_precipitation data) now s
      = (u, r, s1)"
    by (metis prod_cases3)
  obtain u' r' t1 where bt: "precipitation_intensity_block (accumulated_precipitation data) now t
      = (u', r', t1)"
    by (metis prod_cases3)
  have f: "previous_precipitation s = previous_precipitation t"
    "previous_precipitation_timestamp s = previous_precipitation_timestamp t"
    "precipitation_intensity_interval s = precipitation_intensity_interval t"
    using assms by (simp_all add: same_but_night_def)
  have e: "u = u'" "r = r'" "same_but_night s1 t1"
    using bs bt assms f
    by (auto simp add: precipitation_intensity_block_def Let_def same_but_night_baseline
        split: option.splits if_splits)
  have sn: "sensors s1 = sensors t1"
    using e(3) by (rule same_but_night_sensors)
  show ?thesis
    unfolding precipitation_block_def bs bt prod.case Let_def
    using e by (simp add: same_but_night_publish_if_set same_but_night_publish_state sn)
qed

lemma same_but_night_uv_block:
  assumes "same_but_night s t"
  shows "same_but_night (uv_block data s) (uv_block data t)"
proof -
  have sn: "sensors s = sensors t"
    using assms by (rule same_but_night_sensors)
  show ?thesis
    unfolding uv_block_def Let_def
    using assms by (simp add: same_but_night_publish_if_set same_but_night_publish_state sn)
qed

lemma same_but_night_night_block:
  "same_but_night s t \<Longrightarrow>
   same_but_night (fst (night_block data (s, g))) (fst (night_block data (t, h)))"
  by (auto simp add: night_block_def same_but_night_publish_night
      same_but_night_sensors split: float.split prod.split)

lemma same_but_night_light_block:
  "same_but_night s t \<Longrightarrow> same_but_night (light_block data s) (light_block data t)"
  by (simp add: light_block_def same_but_night_publish_if_set)

lemma same_but_night_process_packet:
  assumes "same_but_night s t"
  shows "same_but_night (fst (process_packet data hp now (s, g)))
           (fst (process_packet data hp now (t, h)))"
proof -
  define s9 where "s9 = uv_block data (precipitation_block data now (wind_gust_block data
    (wind_speed_block data (humidity_block data (temperature_block data (battery_block data
      (wind_direction_block data (pressure_block data hp s))))))))"
  define t9 where "t9 = uv_block data (precipitation_block data now (wind_gust_block data
    (wind_speed_block data (humidity_block data (temperature_block data (battery_block data
      (wind_direction_block data (pressure_block data hp t))))))))"
  have "same_but_night s9 t9"
    unfolding s9_def t9_def
    by (intro same_but_night_uv_block same_but_night_precipitation_block
        same_but_night_wind_gust_block same_but_night_wind_speed_block
        same_but_night_humidity_block same_but_night_temperature_block
        same_but_night_battery_block same_but_night_wind_direction_block
        same_but_night_pressure_block assms)
  then have "same_but_night (light_block data (fst (night_block data (s9, g))))
      (light_block data (fst (night_block data (t9, h))))"
    by (intro same_but_night_light_block same_but_night_night_block)
  moreover have "fst (process_packet data hp now (s, g))
      = light_block data (fst (night_block data (s9, g)))"
    by (simp add: process_packet_def Let_def s9_def split: prod.split)
  moreover have "fst (process_packet data hp now (t, h))
      = light_block data (fst (night_block data (t9, h)))"
    by (simp add: process_packet_def Let_def t9_def split: prod.split)
  ultimately show ?thesis by simp
qed

lemma same_but_night_reset_sub_entities:
  assumes "same_but_night s t"
  shows "same_but_night (reset_sub_entities s) (reset_sub_entities t)"
  using assms unfolding reset_sub_entities_eq
  by (simp add: same_but_night_def hide_night_def del: filter.simps)

lemma same_but_night_loop:
  assumes "same_but_night s t"
  shows "\<exists>s' g' t' h'. loop now rx (s, g) = Some (s', g') \<and> loop now rx (t, h) = Some (t', h')
      \<and> same_but_night s' t'"
proof -
  define s1 where "s1 = (if communication_timeout now s
      then reset_sub_entities (s\<lparr>first_data_received := False\<rparr>) else s)"
  define t1 where "t1 = (if communication_timeout now t
      then reset_sub_entities (t\<lparr>first_data_received := False\<rparr>) else t)"
  have c: "communication_timeout now s = communication_timeout now t"
    using assms by (simp add: communication_timeout_def same_but_night_def)
  have "same_but_night (s\<lparr>first_data_received := False\<rparr>) (t\<lparr>first_data_received := False\<rparr>)"
    using assms by (simp add: same_but_night_def)
  then have r1: "same_but_night s1 t1"
    unfolding s1_def t1_def using assms c
    by (simp add: same_but_night_reset_sub_entities)
  show ?thesis
  proof (cases "rx = []")
    case True
    then show ?thesis
      using r1 by (simp add: loop_no_bytes s1_def t1_def)
  next
    case False
    define s2 where "s2 = s1\<lparr>first_data_received := True, last_packet_time := now\<rparr>"
    define t2 where "t2 = t1\<lparr>first_data_received := True, last_packet_time := now\<rparr>"
    have r2: "same_but_night s2 t2"
      unfolding s2_def t2_def using r1 by (rule same_but_night_received)
    show ?thesis
    proof (cases "classify rx \<noteq> WRONG_PACKET")
      case True
      have "loop now rx (s, g)
          = Some (process_packet rx (classify rx = BASIC_WITH_PRESSURE) now (s2, g))"
        "loop now rx (t, h)
          = Some (process_packet rx (classify rx = BASIC_WITH_PRESSURE) now (t2, h))"
        using False True by (simp_all add: loop_bytes Let_def s1_def s2_def t1_def t2_def)
      moreover note same_but_night_process_packet [OF r2, of rx
          "classify rx = BASIC_WITH_PRESSURE" now g h]
      ultimately show ?thesis
        by (metis prod.collapse)
    next
      case wrong: False
      have "loop now rx (s, g) = Some (s2, g)" "loop now rx (t, h) = Some (t2, h)"
        using False wrong by (simp_all add: loop_bytes Let_def s1_def s2_def t1_def t2_def)
      with r2 show ?thesis by blast
    qed
  qed
qed

lemma run2_own_ticks:
  assumes "same_but_night s1 t"
  shows "\<exists>s1' s2' g' t' h'. run2 schedule (s1, s2, g) = Some (s1', s2', g')
      \<and> run (map snd (filter fst schedule)) (t, h) = Some (t', h')
      \<and> same_but_night s1' t'"
  using assms
proof (induction schedule arbitrary: s1 s2 g t h)
  case Nil
  then show ?case by simp
next
  case (Cons tick schedule)
  obtain first now rx where tick: "tick = (first, now, rx)"
    by (cases tick)
  show ?case
  proof (cases first)
    case True
    from same_but_night_loop [OF Cons.prems, of now rx g h]
    obtain s1a ga ta ha where l: "loop now rx (s1, g) = Some (s1a, ga)"
        "loop now rx (t, h) = Some (ta, ha)" "same_but_night s1a ta"
      by blast
    from Cons.IH [OF l(3), of s2 ga ha] show ?thesis
      using True tick l by simp
  next
    case False
    obtain s2a ga where l: "loop now rx (s2, g) = Some (s2a, ga)"
      using loop_total by blast
    from Cons.IH [OF Cons.prems, of s2a ga h] show ?thesis
      using False tick l by simp
  qed
qed

text \<open>
  Claim C9, as amended. For a fixed configuration, what a station of namespace
  \<open>misol_weather\<close> publishes on every channel but the night channel, and every field it
  holds, is a function of its own sequence of buffers and tick times alone: run beside
  another station under any schedule, it ends as it does when run alone on its own ticks, up
  to the values of the night channel. Those depend on the statics of \<open>detect_night\<close>, which
  the other station's packets change.
\<close>

theorem other_station_touches_night_only:
  "\<exists>s1' s2' g' t h.
      run2 schedule (s1, s2, g) = Some (s1', s2', g')
      \<and> run (map snd (filter fst schedule)) (s1, g) = Some (t, h)
      \<and> same_but_night s1' t"
  using run2_own_ticks [OF same_but_night_refl] by blast

text \<open>
  Two stations with every sensor set: the second receives a packet, then the first.
\<close>

theorem other_station_touches_night_only_witness:
  "\<exists>s1' s2' g' t h.
      run2 [(False, 0, [0x24, 0, 0, 0, 0, 0, 0, 0, 0, 0, 0, 10, 0, 0, 0, 0, 0x2E]),
            (True, 0, [0x24, 0, 0, 0, 0, 0, 0, 0, 0, 0, 0, 52, 0, 0, 0, 0, 0x58])]
        (WeatherStation_init UNIV, WeatherStation_init UNIV, detect_night_statics_init)
        = Some (s1', s2', g')
      \<and> run [(0, [0x24, 0, 0, 0, 0, 0, 0, 0, 0, 0, 0, 52, 0, 0, 0, 0, 0x58])]
          (WeatherStation_init UNIV, detect_night_statics_init) = Some (t, h)
      \<and> same_but_night s1' t"
  using other_station_touches_night_only
    [of "[(False, 0, [0x24, 0, 0, 0, 0, 0, 0, 0, 0, 0, 0, 10, 0, 0, 0, 0, 0x2E]),
          (True, 0, [0x24, 0, 0, 0, 0, 0, 0, 0, 0, 0, 0, 52, 0, 0, 0, 0, 0x58])]"
        "WeatherStation_init UNIV" "WeatherStation_init UNIV" detect_night_statics_init]
  by simp

text \<open>
  The claim as stated fails: a station that receives one packet with UV intensity 5.2
  publishes "day" when it is alone, and "night" when another station in the process has
  received a packet with UV intensity 1.0 before.
\<close>

theorem night_depends_on_other_station:
  "map_option (published \<circ> fst)
     (run2 [(True, 0, [0x24, 0, 0, 0, 0, 0, 0, 0, 0, 0, 0, 52, 0, 0, 0, 0, 0x58])]
        (WeatherStation_init {night_binary_sensor}, WeatherStation_init {night_binary_sensor},
         detect_night_statics_init))
     = Some [(night_binary_sensor, Binary False)]
   \<and> map_option (published \<circ> fst)
     (run2 [(False, 0, [0x24, 0, 0, 0, 0, 0, 0, 0, 0, 0, 0, 10, 0, 0, 0, 0, 0x2E]),
            (True, 0, [0x24, 0, 0, 0, 0, 0, 0, 0, 0, 0, 0, 52, 0, 0, 0, 0, 0x58])]
        (WeatherStation_init {night_binary_sensor}, WeatherStation_init {night_binary_sensor},
         detect_night_statics_init))
     = Some [(night_binary_sensor, Binary True)]"
proof -
  have alone: "loop 0 [0x24, 0, 0, 0, 0, 0, 0, 0, 0, 0, 0, 52, 0, 0, 0, 0, 0x58]
      (WeatherStation_init {night_binary_sensor}, detect_night_statics_init)
    = Some (\<lparr>sensors = {night_binary_sensor}, published = [(night_binary_sensor, Binary False)],
            first_data_received = True, last_packet_time = 0,
            precipitation_intensity_interval = 300000, previous_precipitation_timestamp = 0,
            previous_precipitation = Some 0, upper_night_threshold = Val 5.5,
            lower_night_threshold = Val 4.5\<rparr>,
           \<lparr>previous_result = False, first_run = False\<rparr>)"
    by (simp add: tick_defs) (simp add: block_defs raw_defs)
  have other: "loop 0 [0x24, 0, 0, 0, 0, 0, 0, 0, 0, 0, 0, 10, 0, 0, 0, 0, 0x2E]
      (WeatherStation_init {night_binary_sensor}, detect_night_statics_init)
    = Some (\<lparr>sensors = {night_binary_sensor}, published = [(night_binary_sensor, Binary True)],
            first_data_received = True, last_packet_time = 0,
            precipitation_intensity_interval = 300000, previous_precipitation_timestamp = 0,
            previous_precipitation = Some 0, upper_night_threshold = Val 5.5,
            lower_night_threshold = Val 4.5\<rparr>,
           \<lparr>previous_result = True, first_run = False\<rparr>)"
    by (simp add: tick_defs) (simp add: block_defs raw_defs)
  have after: "loop 0 [0x24, 0, 0, 0, 0, 0, 0, 0, 0, 0, 0, 52, 0, 0, 0, 0, 0x58]
      (WeatherStation_init {night_binary_sensor}, \<lparr>previous_result = True, first_run = False\<rparr>)
    = Some (\<lparr>sensors = {night_binary_sensor}, published = [(night_binary_sensor, Binary True)],
            first_data_received = True, last_packet_time = 0,
            precipitation_intensity_interval = 300000, previous_precipitation_timestamp = 0,
            previous_precipitation = Some 0, upper_night_threshold = Val 5.5,
            lower_night_threshold = Val 4.5\<rparr>,
           \<lparr>previous_result = True, first_run = False\<rparr>)"
    by (simp add: tick_defs) (simp add: block_defs raw_defs)
  show ?thesis
    unfolding run2.simps if_True if_False alone other after option.case prod.case
    by (simp add: WeatherStation_init_def)
qed

end
